theory Spec2Isabelle
  imports Complex_Main
begin

section \<open>Nested index arrays\<close>

text \<open>
  The boundaries of a geometry, the \<open>values\<close> of a material and the \<open>values\<close> of a
  texture are JSON arrays nested to a depth that depends on the geometry type. A member
  of such an array is a list again, an integer, or \<open>null\<close> (Python \<open>None\<close>).
\<close>

datatype nest = Leaf int | Null | Nest "nest list"

datatype pyerr = KeyError | IndexError | TypeError | ValueError

text \<open>
  \<^verbatim>\<open>
  def update_geom_indices(a, offset):
      for i, each in enumerate(a):
          if isinstance(each, list):
              update_geom_indices(each, offset)
          else:
              if each is not None:
                  a[i] = each + offset
  \<close>
  The list is changed in place; the model returns the changed list.
\<close>

fun update_geom_indices :: "nest list \<Rightarrow> int \<Rightarrow> nest list" where
  "update_geom_indices [] offset = []"
| "update_geom_indices (Nest b # a) offset =
     Nest (update_geom_indices b offset) # update_geom_indices a offset"
| "update_geom_indices (Null # a) offset = Null # update_geom_indices a offset"
| "update_geom_indices (Leaf each # a) offset = Leaf (each + offset) # update_geom_indices a offset"

text \<open>
  \<^verbatim>\<open>
  def update_texture_indices(a, toffset, voffset):
      for i, each in enumerate(a):
          if isinstance(each, list):
              update_texture_indices(each, toffset, voffset)
          else:
              if each is not None:
                  if i == 0:
                      a[i] = each + toffset
                  else:
                      a[i] = each + voffset
  \<close>
  \<open>update_texture_from i\<close> is the loop from position \<open>i\<close> of the list on.
\<close>

fun update_texture_from :: "nat \<Rightarrow> nest list \<Rightarrow> int \<Rightarrow> int \<Rightarrow> nest list" where
  "update_texture_from i [] toffset voffset = []"
| "update_texture_from i (Nest b # a) toffset voffset =
     Nest (update_texture_from 0 b toffset voffset) # update_texture_from (Suc i) a toffset voffset"
| "update_texture_from i (Null # a) toffset voffset =
     Null # update_texture_from (Suc i) a toffset voffset"
| "update_texture_from i (Leaf each # a) toffset voffset =
     Leaf (if i = 0 then each + toffset else each + voffset)
       # update_texture_from (Suc i) a toffset voffset"

definition update_texture_indices :: "nest list \<Rightarrow> int \<Rightarrow> int \<Rightarrow> nest list" where
  "update_texture_indices a toffset voffset = update_texture_from 0 a toffset voffset"


fun is_scalar :: "nest \<Rightarrow> bool" where
  "is_scalar (Nest b) = False"
| "is_scalar x = True"


section \<open>Python numbers\<close>

text \<open>
  A JSON number is read as a Python \<open>int\<close> (unbounded) or a Python \<open>float\<close> (IEEE 754
  binary64). A finite float is modelled by the rational it denotes. \<open>fl\<close> rounds a
  rational to the nearest binary64 value, ties to even, with 53 significant bits and the
  subnormal spacing \<open>2 powi (- 1074)\<close> at the bottom of the range; the result of a float
  operation of Python is \<open>fl\<close> of the exact result. Infinities, NaN, the sign of zero and
  overflow past the largest binary64 value are outside the model.
\<close>

datatype pynum = PyInt int | PyFloat rat

definition round_half_even :: "rat \<Rightarrow> int" where
  "round_half_even x =
     (let f = \<lfloor>x\<rfloor>; d = x - of_int f
      in if d < 1 / 2 then f else if 1 / 2 < d then f + 1 else if even f then f else f + 1)"

function ilog2 :: "int \<Rightarrow> int" where
  "ilog2 n = (if n < 2 then 0 else 1 + ilog2 (n div 2))"
  by pat_completeness auto
termination
  by (relation "measure nat") auto

declare ilog2.simps [simp del]

definition floor_log2 :: "rat \<Rightarrow> int" where
  "floor_log2 x =
     (let (p, q) = quotient_of x; d = ilog2 p - ilog2 q
      in if 2 powi d \<le> x then d else d - 1)"

definition fl :: "rat \<Rightarrow> rat" where
  "fl x =
     (if x = 0 then 0
      else let u = 2 powi (max (floor_log2 \<bar>x\<bar>) (- 1022) - 52)
           in of_int (round_half_even (x / u)) * u)"

text \<open>The exact value of a number, and \<open>float(x)\<close>.\<close>

fun num_val :: "pynum \<Rightarrow> rat" where
  "num_val (PyInt i) = of_int i"
| "num_val (PyFloat r) = r"

fun py_float :: "pynum \<Rightarrow> rat" where
  "py_float (PyInt i) = fl (of_int i)"
| "py_float (PyFloat r) = r"

text \<open>
  \<open>x - y\<close>, \<open>x * y\<close> and \<open>x + y\<close> of Python: exact on two ints, and otherwise the float
  operation on the operands converted to float. \<open>x < y\<close> compares the exact values.
\<close>

fun py_sub :: "pynum \<Rightarrow> pynum \<Rightarrow> pynum" where
  "py_sub (PyInt x) (PyInt y) = PyInt (x - y)"
| "py_sub x y = PyFloat (fl (py_float x - py_float y))"

fun py_mul :: "pynum \<Rightarrow> pynum \<Rightarrow> pynum" where
  "py_mul (PyInt x) (PyInt y) = PyInt (x * y)"
| "py_mul x y = PyFloat (fl (py_float x * py_float y))"

fun py_add :: "pynum \<Rightarrow> pynum \<Rightarrow> pynum" where
  "py_add (PyInt x) (PyInt y) = PyInt (x + y)"
| "py_add x y = PyFloat (fl (py_float x + py_float y))"

definition py_lt :: "pynum \<Rightarrow> pynum \<Rightarrow> bool" where
  "py_lt x y = (num_val x < num_val y)"

text \<open>\<open>xs[i]\<close> of Python: a negative index counts from the end, an index out of range raises.\<close>

definition py_index :: "'a list \<Rightarrow> int \<Rightarrow> pyerr + 'a" where
  "py_index xs i =
     (if 0 \<le> i \<and> i < int (length xs) then Inr (xs ! nat i)
      else if i < 0 \<and> - int (length xs) \<le> i then Inr (xs ! nat (int (length xs) + i))
      else Inl IndexError)"

section \<open>The dataset\<close>

text \<open>
  The members of \<open>self.j\<close> that the vertex pool manager and the merge read and write. A
  dictionary is an association list in insertion order, as Python iterates it; a member
  that may be missing is an \<open>option\<close>. A vertex is an array of three numbers. The entries
  of the materials, textures and texture vertices tables and the values of attributes are
  not looked into, they are strings here.
\<close>

type_synonym vertex = "pynum \<times> pynum \<times> pynum"

record Transform =
  scale :: vertex
  translate :: vertex

record MaterialBinding =
  mvalue :: "int option"
  mvalues :: "nest list option"

record Geometry =
  gtype :: string
  lod :: "string option"
  boundaries :: "nest list"
  material :: "(string \<times> MaterialBinding) list option"
  texture :: "(string \<times> nest list option) list option"
  template :: "int option"

record CityObject =
  attributes :: "(string \<times> string) list option"
  geometry :: "Geometry list option"

record Appearance =
  materials :: "string list option"
  textures :: "string list option"
  vertices_texture :: "string list option"

record GeometryTemplates =
  templates :: "Geometry list"
  vertices_templates :: "vertex list"

record CityJSON =
  transform :: "Transform option"
  vertices :: "vertex list"
  CityObjects :: "(string \<times> CityObject) list"
  appearance :: "Appearance option"
  geometry_templates :: "GeometryTemplates option"

text \<open>
  A method either returns, with the dataset as it left it and its result, or raises, with
  the dataset as it stood when the exception left the method.
\<close>

datatype ('s, 'r) outcome = Returned 's 'r | Raised pyerr 's

section \<open>Vertex pool manager\<close>

subsection \<open>Rewriting the indices of every geometry\<close>

text \<open>
  \<open>remove_orphan_vertices\<close> and \<open>remove_duplicate_vertices\<close> each have a local function
  that rewrites an index array in place,
  \<^verbatim>\<open>
        def update_face(a, oldnewids):
            for i, each in enumerate(a):
                if isinstance(each, list):
                    update_face(each, oldnewids)
                else:
                    a[i] = oldnewids[each]
  \<close>
  and the same with \<open>newids[each]\<close>. \<open>update_leaves f\<close> is that loop for the lookup
  \<open>f\<close>; when a lookup raises, the members rewritten so far stay rewritten, and the
  exception is returned beside the list.
\<close>

fun update_leaves :: "(nest \<Rightarrow> pyerr + nest) \<Rightarrow> nest list \<Rightarrow> nest list \<times> pyerr option" where
  "update_leaves f [] = ([], None)"
| "update_leaves f (Nest b # a) =
     (case update_leaves f b of
        (b', Some e) \<Rightarrow> (Nest b' # a, Some e)
      | (b', None) \<Rightarrow> (case update_leaves f a of (a', r) \<Rightarrow> (Nest b' # a', r)))"
| "update_leaves f (each # a) =
     (case f each of
        Inl e \<Rightarrow> (each # a, Some e)
      | Inr x \<Rightarrow> (case update_leaves f a of (a', r) \<Rightarrow> (x # a', r)))"

text \<open>
  \<^verbatim>\<open>
        for theid in self.j["CityObjects"]:
            if "geometry" in self.j["CityObjects"][theid]:
                for g in self.j["CityObjects"][theid]["geometry"]:
                    update_face(g["boundaries"], oldnewids)
  \<close>
\<close>

fun update_geometries ::
  "(nest list \<Rightarrow> nest list \<times> pyerr option) \<Rightarrow> Geometry list \<Rightarrow> Geometry list \<times> pyerr option" where
  "update_geometries upd [] = ([], None)"
| "update_geometries upd (g # gs) =
     (case upd (boundaries g) of
        (b', Some e) \<Rightarrow> (g\<lparr>boundaries := b'\<rparr> # gs, Some e)
      | (b', None) \<Rightarrow>
          (case update_geometries upd gs of (gs', r) \<Rightarrow> (g\<lparr>boundaries := b'\<rparr> # gs', r)))"

fun update_cityobjects ::
  "(nest list \<Rightarrow> nest list \<times> pyerr option) \<Rightarrow> (string \<times> CityObject) list
     \<Rightarrow> (string \<times> CityObject) list \<times> pyerr option" where
  "update_cityobjects upd [] = ([], None)"
| "update_cityobjects upd ((theid, co) # objs) =
     (case geometry co of
        None \<Rightarrow> (case update_cityobjects upd objs of (objs', r) \<Rightarrow> ((theid, co) # objs', r))
      | Some gs \<Rightarrow>
          (case update_geometries upd gs of
             (gs', Some e) \<Rightarrow> ((theid, co\<lparr>geometry := Some gs'\<rparr>) # objs, Some e)
           | (gs', None) \<Rightarrow>
               (case update_cityobjects upd objs of
                  (objs', r) \<Rightarrow> ((theid, co\<lparr>geometry := Some gs'\<rparr>) # objs', r))))"

subsection \<open>Remove orphans\<close>

text \<open>
  \<^verbatim>\<open>
        def visit_geom(a, oldnewids, newvertices):
            for i, each in enumerate(a):
                if isinstance(each, list):
                    visit_geom(each, oldnewids, newvertices)
                else:
                    if each not in oldnewids:
                        oldnewids[each] = len(newvertices)
                        newvertices.append(each)
  \<close>
  The state of the traversal is the dictionary \<open>oldnewids\<close> and the list \<open>newvertices\<close>.
\<close>

fun visit_geom ::
  "nest list \<Rightarrow> (nest \<times> nat) list \<times> nest list \<Rightarrow> (nest \<times> nat) list \<times> nest list" where
  "visit_geom [] st = st"
| "visit_geom (Nest b # a) st = visit_geom a (visit_geom b st)"
| "visit_geom (each # a) (oldnewids, newvertices) =
     (if map_of oldnewids each = None
      then visit_geom a (oldnewids @ [(each, length newvertices)], newvertices @ [each])
      else visit_geom a (oldnewids, newvertices))"

definition visit_cityobjects ::
  "(string \<times> CityObject) list \<Rightarrow> (nest \<times> nat) list \<times> nest list
     \<Rightarrow> (nest \<times> nat) list \<times> nest list" where
  "visit_cityobjects objs st =
     fold (\<lambda>(theid, co) st.
             case geometry co of
               None \<Rightarrow> st
             | Some gs \<Rightarrow> fold (\<lambda>g st. visit_geom (boundaries g) st) gs st) objs st"

definition update_face :: "nest list \<Rightarrow> (nest \<times> nat) list \<Rightarrow> nest list \<times> pyerr option" where
  "update_face a oldnewids =
     update_leaves
       (\<lambda>each. case map_of oldnewids each of
                 None \<Rightarrow> Inl KeyError
               | Some k \<Rightarrow> Inr (Leaf (int k))) a"

text \<open>\<open>self.j["vertices"][v]\<close>, for a member \<open>v\<close> of an index array.\<close>

fun vertex_at :: "vertex list \<Rightarrow> nest \<Rightarrow> pyerr + vertex" where
  "vertex_at vs (Leaf n) = py_index vs n"
| "vertex_at vs x = Inl TypeError"

text \<open>
  \<^verbatim>\<open>
        newv2 = []
        for v in newvertices:
            newv2.append(self.j["vertices"][v])
  \<close>
\<close>

fun gather_vertices :: "vertex list \<Rightarrow> nest list \<Rightarrow> pyerr + vertex list" where
  "gather_vertices vs [] = Inr []"
| "gather_vertices vs (v # newvertices) =
     (case vertex_at vs v of
        Inl e \<Rightarrow> Inl e
      | Inr x \<Rightarrow> (case gather_vertices vs newvertices of Inl e \<Rightarrow> Inl e | Inr newv2 \<Rightarrow> Inr (x # newv2)))"

definition remove_orphan_vertices :: "CityJSON \<Rightarrow> (CityJSON, int) outcome" where
  "remove_orphan_vertices cm =
     (let totalinput = length (vertices cm);
          (oldnewids, newvertices) = visit_cityobjects (CityObjects cm) ([], []);
          (objs, r) = update_cityobjects (\<lambda>a. update_face a oldnewids) (CityObjects cm);
          cm1 = cm\<lparr>CityObjects := objs\<rparr>
      in case r of
           Some e \<Rightarrow> Raised e cm1
         | None \<Rightarrow>
             (case gather_vertices (vertices cm) newvertices of
                Inl e \<Rightarrow> Raised e cm1
              | Inr newv2 \<Rightarrow>
                  Returned (cm1\<lparr>vertices := newv2\<rparr>) (int totalinput - int (length newv2))))"

subsection \<open>Deduplicate\<close>

text \<open>
  \<^verbatim>\<open>
        h = {}
        newids = [-1] * len(self.j["vertices"])
        newvertices = []
        for i, v in enumerate(self.j["vertices"]):
            s = "{x} {y} {z}".format(x=v[0], y=v[1], z=v[2])
            if s not in h:
                newid = len(h)
                newids[i] = newid
                h[s] = newid
                newvertices.append(s)
            else:
                newids[i] = h[s]
  \<close>
  The key \<open>s\<close> writes the three numbers as Python prints them: an int in decimal, a
  float by its shortest representation that reads back as the same float, which always
  holds a point, an exponent, \<open>inf\<close> or \<open>nan\<close>. So two keys are equal exactly when the
  vertices have the same three numbers of the same types, and the key is modelled by the
  vertex itself.
\<close>

fun dedup_scan ::
  "vertex list \<Rightarrow> nat \<Rightarrow> (vertex \<times> nat) list \<Rightarrow> int list \<Rightarrow> vertex list
     \<Rightarrow> (vertex \<times> nat) list \<times> int list \<times> vertex list" where
  "dedup_scan [] i h newids newvertices = (h, newids, newvertices)"
| "dedup_scan (s # vs) i h newids newvertices =
     (case map_of h s of
        None \<Rightarrow>
          (let newid = length h
           in dedup_scan vs (Suc i) (h @ [(s, newid)]) (newids[i := int newid]) (newvertices @ [s]))
      | Some k \<Rightarrow> dedup_scan vs (Suc i) h (newids[i := int k]) newvertices)"

definition update_geom_indices_newids :: "nest list \<Rightarrow> int list \<Rightarrow> nest list \<times> pyerr option" where
  "update_geom_indices_newids a newids =
     update_leaves
       (\<lambda>each. case each of
                 Leaf n \<Rightarrow> (case py_index newids n of Inl e \<Rightarrow> Inl e | Inr k \<Rightarrow> Inr (Leaf k))
               | _ \<Rightarrow> Inl TypeError) a"

text \<open>
  \<^verbatim>\<open>
        for v in newvertices:
            if "transform" in self.j:
                a = list(map(int, v.split()))
            else:
                a = list(map(float, v.split()))
            newv2.append(a)
  \<close>
  \<open>int\<close> reads the text of an int and raises \<open>ValueError\<close> on the text of a float;
  \<open>float\<close> reads both, the text of an int as the nearest float.
\<close>

fun read_int :: "pynum \<Rightarrow> pyerr + pynum" where
  "read_int (PyInt i) = Inr (PyInt i)"
| "read_int (PyFloat r) = Inl ValueError"

definition read_float :: "pynum \<Rightarrow> pynum" where
  "read_float x = PyFloat (py_float x)"

fun read_vertex :: "bool \<Rightarrow> vertex \<Rightarrow> pyerr + vertex" where
  "read_vertex True (x, y, z) =
     (case (read_int x, read_int y, read_int z) of
        (Inr a, Inr b, Inr c) \<Rightarrow> Inr (a, b, c)
      | _ \<Rightarrow> Inl ValueError)"
| "read_vertex False (x, y, z) = Inr (read_float x, read_float y, read_float z)"

fun read_vertices :: "bool \<Rightarrow> vertex list \<Rightarrow> pyerr + vertex list" where
  "read_vertices t [] = Inr []"
| "read_vertices t (v # newvertices) =
     (case read_vertex t v of
        Inl e \<Rightarrow> Inl e
      | Inr a \<Rightarrow> (case read_vertices t newvertices of Inl e \<Rightarrow> Inl e | Inr newv2 \<Rightarrow> Inr (a # newv2)))"

definition remove_duplicate_vertices :: "CityJSON \<Rightarrow> (CityJSON, int) outcome" where
  "remove_duplicate_vertices cm =
     (let totalinput = length (vertices cm);
          (h, newids, newvertices) =
             dedup_scan (vertices cm) 0 [] (replicate (length (vertices cm)) (- 1)) [];
          (objs, r) = update_cityobjects (\<lambda>a. update_geom_indices_newids a newids) (CityObjects cm);
          cm1 = cm\<lparr>CityObjects := objs\<rparr>
      in case r of
           Some e \<Rightarrow> Raised e cm1
         | None \<Rightarrow>
             (case read_vertices (transform cm \<noteq> None) newvertices of
                Inl e \<Rightarrow> Raised e cm1
              | Inr newv2 \<Rightarrow>
                  Returned (cm1\<lparr>vertices := newv2\<rparr>) (int totalinput - int (length newv2))))"

subsection \<open>Quantize and dequantize\<close>

text \<open>
  \<^verbatim>\<open>
    def compress(self, important_digits=3, translate=None):
        if "transform" in self.j:
            return False
        if translate:
            bbox = translate
        else:
            bbox = [9e9, 9e9, 9e9]
            for v in self.j["vertices"]:
                for i in range(3):
                    if v[i] < bbox[i]:
                        bbox[i] = v[i]
        n = [0, 0, 0]
        p = "%." + str(important_digits) + "f"
        for v in self.j["vertices"]:
            for i in range(3):
                n[i] = v[i] - bbox[i]
            for i in range(3):
                v[i] = int((p % n[i]).replace(".", ""))
        ss = 1.0 / (math.pow(10, important_digits))
        self.j["transform"] = {}
        self.j["transform"]["scale"] = [ss, ss, ss]
        self.j["transform"]["translate"] = [bbox[0], bbox[1], bbox[2]]
        _ = self.remove_duplicate_vertices()
        _ = self.remove_orphan_vertices()
        return True
  \<close>
  \<open>p % x\<close> converts \<open>x\<close> to float and writes it with \<open>important_digits\<close> decimals, the
  exact binary value rounded to the nearest decimal, ties to even; without its point the
  text is the decimal numeral of that rounding times \<open>10 ^ important_digits\<close>, which
  \<open>int\<close> reads. \<open>math.pow(10, k)\<close> is the float nearest to \<open>10 ^ k\<close>.
\<close>

definition format_to_int :: "nat \<Rightarrow> pynum \<Rightarrow> int" where
  "format_to_int important_digits x = round_half_even (py_float x * 10 ^ important_digits)"

definition lower :: "pynum \<Rightarrow> pynum \<Rightarrow> pynum" where
  "lower b v = (if py_lt v b then v else b)"

definition pool_minimum :: "vertex list \<Rightarrow> vertex" where
  "pool_minimum vs =
     fold (\<lambda>(x, y, z) (b0, b1, b2). (lower b0 x, lower b1 y, lower b2 z)) vs
       (PyFloat 9000000000, PyFloat 9000000000, PyFloat 9000000000)"

fun quantize_vertex :: "nat \<Rightarrow> vertex \<Rightarrow> vertex \<Rightarrow> vertex" where
  "quantize_vertex important_digits (b0, b1, b2) (x, y, z) =
     (PyInt (format_to_int important_digits (py_sub x b0)),
      PyInt (format_to_int important_digits (py_sub y b1)),
      PyInt (format_to_int important_digits (py_sub z b2)))"

definition compress :: "nat \<Rightarrow> vertex option \<Rightarrow> CityJSON \<Rightarrow> (CityJSON, bool) outcome" where
  "compress important_digits translate_arg cm =
     (if transform cm \<noteq> None then Returned cm False
      else
        let bbox = (case translate_arg of Some t \<Rightarrow> t | None \<Rightarrow> pool_minimum (vertices cm));
            ss = PyFloat (fl (1 / fl (10 ^ important_digits)));
            cm1 = cm\<lparr>vertices := map (quantize_vertex important_digits bbox) (vertices cm),
                      transform := Some \<lparr>scale = (ss, ss, ss), translate = bbox\<rparr>\<rparr>
        in case remove_duplicate_vertices cm1 of
             Raised e cm2 \<Rightarrow> Raised e cm2
           | Returned cm2 removed \<Rightarrow>
               (case remove_orphan_vertices cm2 of
                  Raised e cm3 \<Rightarrow> Raised e cm3
                | Returned cm3 removed' \<Rightarrow> Returned cm3 True))"

text \<open>
  \<^verbatim>\<open>
    def decompress(self):
        if "transform" in self.j:
            for v in self.j["vertices"]:
                v[0] = (v[0] * self.j["transform"]["scale"][0]) + self.j["transform"]["translate"][0]
                v[1] = (v[1] * self.j["transform"]["scale"][1]) + self.j["transform"]["translate"][1]
                v[2] = (v[2] * self.j["transform"]["scale"][2]) + self.j["transform"]["translate"][2]
            del self.j["transform"]
            return True
        else:
            return False
  \<close>
\<close>

fun dequantize_vertex :: "Transform \<Rightarrow> vertex \<Rightarrow> vertex" where
  "dequantize_vertex t (x, y, z) =
     (case (scale t, translate t) of
        ((s0, s1, s2), (t0, t1, t2)) \<Rightarrow>
          (py_add (py_mul x s0) t0, py_add (py_mul y s1) t1, py_add (py_mul z s2) t2))"

definition decompress :: "CityJSON \<Rightarrow> CityJSON \<times> bool" where
  "decompress cm =
     (case transform cm of
        Some t \<Rightarrow> (cm\<lparr>vertices := map (dequantize_vertex t) (vertices cm), transform := None\<rparr>, True)
      | None \<Rightarrow> (cm, False))"

section \<open>Offset merge engine\<close>

text \<open>
  \<open>CityJSON.merge\<close> changes the target \<open>self.j\<close> in place, block after block. Every block
  below takes the target and returns it as the block left it, with the exception that
  stopped it, if one did. A CityObject or geometry that the target takes over from a
  source is the same Python object in both; the blocks reach it through the target
  only, so the model keeps the target's copy. The sources are taken to be distinct
  objects that share nothing with the target before the merge.
\<close>

text \<open>\<open>d[k] = v\<close>: the value of an existing key is replaced in place, a new key goes last.\<close>

fun dict_set :: "('k \<times> 'v) list \<Rightarrow> 'k \<Rightarrow> 'v \<Rightarrow> ('k \<times> 'v) list" where
  "dict_set [] k v = [(k, v)]"
| "dict_set ((k', v') # d) k v = (if k' = k then (k, v) # d else (k', v') # dict_set d k v)"

text \<open>A loop that changes the members of a list in place and stops when one raises.\<close>

fun update_list :: "('a \<Rightarrow> 'a \<times> pyerr option) \<Rightarrow> 'a list \<Rightarrow> 'a list \<times> pyerr option" where
  "update_list f [] = ([], None)"
| "update_list f (x # xs) =
     (case f x of
        (x', Some e) \<Rightarrow> (x' # xs, Some e)
      | (x', None) \<Rightarrow> (case update_list f xs of (xs', r) \<Rightarrow> (x' # xs', r)))"

text \<open>
  \<open>for theid in cm.j["CityObjects"]:\<close> with a body that works on
  \<open>self.j["CityObjects"][theid]\<close>.
\<close>

fun for_ids ::
  "(CityObject \<Rightarrow> CityObject \<times> pyerr option) \<Rightarrow> string list \<Rightarrow> (string \<times> CityObject) list
     \<Rightarrow> (string \<times> CityObject) list \<times> pyerr option" where
  "for_ids f [] objs = (objs, None)"
| "for_ids f (theid # ids) objs =
     (case map_of objs theid of
        None \<Rightarrow> (objs, Some KeyError)
      | Some co \<Rightarrow>
          (case f co of
             (co', Some e) \<Rightarrow> (dict_set objs theid co', Some e)
           | (co', None) \<Rightarrow> for_ids f ids (dict_set objs theid co')))"

text \<open>The body \<open>for g in co.get("geometry", []):\<close> of such a loop.\<close>

definition each_geometry ::
  "(Geometry \<Rightarrow> Geometry \<times> pyerr option) \<Rightarrow> CityObject \<Rightarrow> CityObject \<times> pyerr option" where
  "each_geometry f co =
     (case geometry co of
        None \<Rightarrow> (co, None)
      | Some gs \<Rightarrow> (case update_list f gs of (gs', r) \<Rightarrow> (co\<lparr>geometry := Some gs'\<rparr>, r)))"

definition then_do :: "'s \<times> pyerr option \<Rightarrow> ('s \<Rightarrow> 's \<times> pyerr option) \<Rightarrow> 's \<times> pyerr option" where
  "then_do x f = (case x of (s, Some e) \<Rightarrow> (s, Some e) | (s, None) \<Rightarrow> f s)"

subsection \<open>Vertices and CityObjects\<close>

text \<open>
  \<^verbatim>\<open>
                    if "attributes" in cm.j["CityObjects"][theid]:
                        for a in cm.j["CityObjects"][theid]["attributes"]:
                            if a not in self.j["CityObjects"][theid]["attributes"]:
                                self.j["CityObjects"][theid]["attributes"][a] = cm.j[
                                    "CityObjects"
                                ][theid]["attributes"][a]
  \<close>
\<close>

fun merge_attributes :: "(string \<times> string) list \<Rightarrow> (string \<times> string) list \<Rightarrow> (string \<times> string) list" where
  "merge_attributes [] mine = mine"
| "merge_attributes ((a, v) # theirs) mine =
     merge_attributes theirs (if map_of mine a = None then mine @ [(a, v)] else mine)"

definition merge_object_attributes :: "CityObject \<Rightarrow> CityObject \<Rightarrow> pyerr + CityObject" where
  "merge_object_attributes theirs mine =
     (case attributes theirs of
        None \<Rightarrow> Inr mine
      | Some [] \<Rightarrow> Inr mine
      | Some ta \<Rightarrow>
          (case attributes mine of
             None \<Rightarrow> Inl KeyError
           | Some ma \<Rightarrow> Inr (mine\<lparr>attributes := Some (merge_attributes ta ma)\<rparr>)))"

text \<open>
  \<^verbatim>\<open>
                    if "geometry" in self.j["CityObjects"][theid]:
                        for g in cm.j["CityObjects"][theid]["geometry"]:
                            thelod = str(g["lod"])
                            b = False
                            for g2 in self.j["CityObjects"][theid]["geometry"]:
                                if g2["lod"] == thelod:
                                    b = True
                                    break
                            if not b:
                                self.j["CityObjects"][theid]["geometry"].append(g)
                                update_geom_indices(
                                    self.j["CityObjects"][theid]["geometry"][-1]["boundaries"],
                                    offset,
                                )
  \<close>
  The level of detail is a string, which \<open>str\<close> leaves as it is.
\<close>

fun has_lod :: "string \<Rightarrow> Geometry list \<Rightarrow> pyerr + bool" where
  "has_lod thelod [] = Inr False"
| "has_lod thelod (g2 # gs) =
     (case lod g2 of
        None \<Rightarrow> Inl KeyError
      | Some l \<Rightarrow> if l = thelod then Inr True else has_lod thelod gs)"

definition offset_boundaries :: "int \<Rightarrow> Geometry \<Rightarrow> Geometry" where
  "offset_boundaries offset g = g\<lparr>boundaries := update_geom_indices (boundaries g) offset\<rparr>"

fun merge_geometries :: "int \<Rightarrow> Geometry list \<Rightarrow> Geometry list \<Rightarrow> Geometry list \<times> pyerr option" where
  "merge_geometries offset [] mine = (mine, None)"
| "merge_geometries offset (g # theirs) mine =
     (case lod g of
        None \<Rightarrow> (mine, Some KeyError)
      | Some thelod \<Rightarrow>
          (case has_lod thelod mine of
             Inl e \<Rightarrow> (mine, Some e)
           | Inr True \<Rightarrow> merge_geometries offset theirs mine
           | Inr False \<Rightarrow> merge_geometries offset theirs (mine @ [offset_boundaries offset g])))"

text \<open>
  \<^verbatim>\<open>
            for theid in cm.j["CityObjects"]:
                if theid in self.j["CityObjects"]:
                    (attributes, then geometry, as above)
                else:
                    # -- copy the CO
                    self.j["CityObjects"][theid] = cm.j["CityObjects"][theid]
                    if "geometry" in self.j["CityObjects"][theid]:
                        for g in self.j["CityObjects"][theid]["geometry"]:
                            update_geom_indices(g["boundaries"], offset)
  \<close>
\<close>

definition copy_cityobject :: "int \<Rightarrow> CityObject \<Rightarrow> CityObject" where
  "copy_cityobject offset co =
     (case geometry co of
        None \<Rightarrow> co
      | Some gs \<Rightarrow> co\<lparr>geometry := Some (map (offset_boundaries offset) gs)\<rparr>)"

definition merge_cityobject ::
  "int \<Rightarrow> string \<times> CityObject \<Rightarrow> (string \<times> CityObject) list
     \<Rightarrow> (string \<times> CityObject) list \<times> pyerr option" where
  "merge_cityobject offset p objs =
     (case p of (theid, co) \<Rightarrow>
        (case map_of objs theid of
           None \<Rightarrow> (objs @ [(theid, copy_cityobject offset co)], None)
         | Some mine \<Rightarrow>
             (case merge_object_attributes co mine of
                Inl e \<Rightarrow> (objs, Some e)
              | Inr mine1 \<Rightarrow>
                  (case geometry mine1 of
                     None \<Rightarrow> (dict_set objs theid mine1, None)
                   | Some sg \<Rightarrow>
                       (case geometry co of
                          None \<Rightarrow> (dict_set objs theid mine1, Some KeyError)
                        | Some cg \<Rightarrow>
                            (case merge_geometries offset cg sg of
                               (sg', r) \<Rightarrow> (dict_set objs theid (mine1\<lparr>geometry := Some sg'\<rparr>), r)))))))"

fun merge_cityobjects ::
  "int \<Rightarrow> (string \<times> CityObject) list \<Rightarrow> (string \<times> CityObject) list
     \<Rightarrow> (string \<times> CityObject) list \<times> pyerr option" where
  "merge_cityobjects offset [] objs = (objs, None)"
| "merge_cityobjects offset (p # theirs) objs =
     (case merge_cityobject offset p objs of
        (objs', Some e) \<Rightarrow> (objs', Some e)
      | (objs', None) \<Rightarrow> merge_cityobjects offset theirs objs')"

text \<open>
  \<^verbatim>\<open>
            offset = len(self.j["vertices"])
            self.j["vertices"] += cm.j["vertices"]
            # -- add each CityObjects
            for theid in cm.j["CityObjects"]: ...
  \<close>
\<close>

definition merge_vertices_cityobjects :: "CityJSON \<Rightarrow> CityJSON \<Rightarrow> CityJSON \<times> pyerr option" where
  "merge_vertices_cityobjects cm self =
     (let offset = int (length (vertices self));
          self1 = self\<lparr>vertices := vertices self @ vertices cm\<rparr>
      in case merge_cityobjects offset (CityObjects cm) (CityObjects self1) of
           (objs, r) \<Rightarrow> (self1\<lparr>CityObjects := objs\<rparr>, r))"

subsection \<open>Templates\<close>

text \<open>
  \<^verbatim>\<open>
            if "geometry-templates" in cm.j:
                if "geometry-templates" in self.j:
                    notemplates = len(self.j["geometry-templates"]["templates"])
                    novtemplate = len(self.j["geometry-templates"]["vertices-templates"])
                else:
                    self.j["geometry-templates"] = {}
                    self.j["geometry-templates"]["templates"] = []
                    self.j["geometry-templates"]["vertices-templates"] = []
                    notemplates = 0
                    novtemplate = 0
                for t in cm.j["geometry-templates"]["templates"]:
                    self.j["geometry-templates"]["templates"].append(t)
                    tmp = self.j["geometry-templates"]["templates"][-1]
                    update_geom_indices(tmp["boundaries"], novtemplate)
                self.j["geometry-templates"]["vertices-templates"] += cm.j[
                    "geometry-templates"]["vertices-templates"]
                for theid in cm.j["CityObjects"]:
                    if "geometry" in self.j["CityObjects"][theid]:
                        for g in self.j["CityObjects"][theid]["geometry"]:
                            if g["type"] == "GeometryInstance":
                                g["template"] += notemplates
  \<close>
\<close>

definition offset_instance :: "int \<Rightarrow> Geometry \<Rightarrow> Geometry \<times> pyerr option" where
  "offset_instance notemplates g =
     (if gtype g = ''GeometryInstance''
      then (case template g of
              None \<Rightarrow> (g, Some KeyError)
            | Some t \<Rightarrow> (g\<lparr>template := Some (t + notemplates)\<rparr>, None))
      else (g, None))"

definition merge_templates :: "CityJSON \<Rightarrow> CityJSON \<Rightarrow> CityJSON \<times> pyerr option" where
  "merge_templates cm self =
     (case geometry_templates cm of
        None \<Rightarrow> (self, None)
      | Some theirs \<Rightarrow>
          (let mine = (case geometry_templates self of
                         None \<Rightarrow> \<lparr>templates = [], vertices_templates = []\<rparr>
                       | Some gt \<Rightarrow> gt);
               notemplates = int (length (templates mine));
               novtemplate = int (length (vertices_templates mine));
               self1 = self\<lparr>geometry_templates :=
                         Some \<lparr>templates = templates mine @ map (offset_boundaries novtemplate) (templates theirs),
                               vertices_templates = vertices_templates mine @ vertices_templates theirs\<rparr>\<rparr>
           in case for_ids (each_geometry (offset_instance notemplates)) (map fst (CityObjects cm))
                     (CityObjects self1) of
                (objs, r) \<Rightarrow> (self1\<lparr>CityObjects := objs\<rparr>, r)))"

subsection \<open>Materials\<close>

text \<open>
  \<^verbatim>\<open>
            if ("appearance" in cm.j) and ("materials" in cm.j["appearance"]):
                if ("appearance" in self.j) and ("materials" in self.j["appearance"]):
                    offset = len(self.j["appearance"]["materials"])
                else:
                    if "appearance" not in self.j:
                        self.j["appearance"] = {}
                    if "materials" not in self.j["appearance"]:
                        self.j["appearance"]["materials"] = []
                    offset = 0
                for m in cm.j["appearance"]["materials"]:
                    self.j["appearance"]["materials"].append(m)
                for theid in cm.j["CityObjects"]:
                    for g in self.j["CityObjects"][theid].get("geometry", []):
                        if "material" in g:
                            for m in g["material"]:
                                if "values" in g["material"][m]:
                                    update_geom_indices(g["material"][m]["values"], offset)
                                else:
                                    g["material"][m]["value"] = (
                                        g["material"][m]["value"] + offset
                                    )
  \<close>
\<close>

definition offset_material_binding ::
  "int \<Rightarrow> string \<times> MaterialBinding \<Rightarrow> (string \<times> MaterialBinding) \<times> pyerr option" where
  "offset_material_binding offset mb =
     (case mb of (m, b) \<Rightarrow>
        (case mvalues b of
           Some vs \<Rightarrow> ((m, b\<lparr>mvalues := Some (update_geom_indices vs offset)\<rparr>), None)
         | None \<Rightarrow>
             (case mvalue b of
                None \<Rightarrow> ((m, b), Some KeyError)
              | Some v \<Rightarrow> ((m, b\<lparr>mvalue := Some (v + offset)\<rparr>), None))))"

definition offset_materials :: "int \<Rightarrow> Geometry \<Rightarrow> Geometry \<times> pyerr option" where
  "offset_materials offset g =
     (case material g of
        None \<Rightarrow> (g, None)
      | Some ms \<Rightarrow>
          (case update_list (offset_material_binding offset) ms of
             (ms', r) \<Rightarrow> (g\<lparr>material := Some ms'\<rparr>, r)))"

definition empty_appearance :: Appearance where
  "empty_appearance = \<lparr>materials = None, textures = None, vertices_texture = None\<rparr>"

definition merge_materials :: "CityJSON \<Rightarrow> CityJSON \<Rightarrow> CityJSON \<times> pyerr option" where
  "merge_materials cm self =
     (case appearance cm of
        None \<Rightarrow> (self, None)
      | Some theirs \<Rightarrow>
          (case materials theirs of
             None \<Rightarrow> (self, None)
           | Some ms \<Rightarrow>
               (let mine = (case appearance self of None \<Rightarrow> empty_appearance | Some a \<Rightarrow> a);
                    old = (case materials mine of None \<Rightarrow> [] | Some l \<Rightarrow> l);
                    offset = int (length old);
                    self1 = self\<lparr>appearance := Some (mine\<lparr>materials := Some (old @ ms)\<rparr>)\<rparr>
                in case for_ids (each_geometry (offset_materials offset)) (map fst (CityObjects cm))
                          (CityObjects self1) of
                     (objs, r) \<Rightarrow> (self1\<lparr>CityObjects := objs\<rparr>, r))))"

subsection \<open>Textures\<close>

text \<open>
  \<^verbatim>\<open>
            if ("appearance" in cm.j) and ("textures" in cm.j["appearance"]):
                if ("appearance" in self.j) and ("textures" in self.j["appearance"]):
                    toffset = len(self.j["appearance"]["textures"])
                    voffset = len(self.j["appearance"]["vertices-texture"])
                else:
                    if "appearance" not in self.j:
                        self.j["appearance"] = {}
                    if "textures" not in self.j["appearance"]:
                        self.j["appearance"]["textures"] = []
                    if "vertices-texture" not in self.j["appearance"]:
                        self.j["appearance"]["vertices-texture"] = []
                    toffset = 0
                    voffset = 0
                self.j["appearance"]["vertices-texture"] += cm.j["appearance"]["vertices-texture"]
                for t in cm.j["appearance"]["textures"]:
                    self.j["appearance"]["textures"].append(t)
                for theid in cm.j["CityObjects"]:
                    for g in self.j["CityObjects"][theid].get("geometry", []):
                        if "texture" in g:
                            for m in g["texture"]:
                                if "values" in g["texture"][m]:
                                    update_texture_indices(
                                        g["texture"][m]["values"], toffset, voffset
                                    )
                                else:
                                    raise KeyError(
                                        f"The member 'values' is missing from the texture '{m}' in CityObject {theid}"
                                    )
  \<close>
  A theme of the \<open>texture\<close> member of a geometry is held with its \<open>values\<close> member,
  \<open>None\<close> when the theme has none.
\<close>

definition offset_texture_binding ::
  "int \<Rightarrow> int \<Rightarrow> string \<times> nest list option \<Rightarrow> (string \<times> nest list option) \<times> pyerr option" where
  "offset_texture_binding toffset voffset tb =
     (case tb of (m, vals) \<Rightarrow>
        (case vals of
           Some vs \<Rightarrow> ((m, Some (update_texture_indices vs toffset voffset)), None)
         | None \<Rightarrow> ((m, None), Some KeyError)))"

definition offset_textures :: "int \<Rightarrow> int \<Rightarrow> Geometry \<Rightarrow> Geometry \<times> pyerr option" where
  "offset_textures toffset voffset g =
     (case texture g of
        None \<Rightarrow> (g, None)
      | Some ts \<Rightarrow>
          (case update_list (offset_texture_binding toffset voffset) ts of
             (ts', r) \<Rightarrow> (g\<lparr>texture := Some ts'\<rparr>, r)))"

text \<open>
  The offsets and the target with the members the \<open>else\<close> branch creates; \<open>KeyError\<close>
  when the target has textures and no texture vertices.
\<close>

definition texture_offsets :: "CityJSON \<Rightarrow> pyerr + (int \<times> int \<times> Appearance)" where
  "texture_offsets self =
     (case appearance self of
        None \<Rightarrow> Inr (0, 0, empty_appearance\<lparr>textures := Some [], vertices_texture := Some []\<rparr>)
      | Some mine \<Rightarrow>
          (case textures mine of
             Some ts \<Rightarrow>
               (case vertices_texture mine of
                  None \<Rightarrow> Inl KeyError
                | Some vt \<Rightarrow> Inr (int (length ts), int (length vt), mine))
           | None \<Rightarrow>
               Inr (0, 0, mine\<lparr>textures := Some [],
                               vertices_texture :=
                                 Some (case vertices_texture mine of None \<Rightarrow> [] | Some vt \<Rightarrow> vt)\<rparr>)))"

definition merge_textures :: "CityJSON \<Rightarrow> CityJSON \<Rightarrow> CityJSON \<times> pyerr option" where
  "merge_textures cm self =
     (case appearance cm of
        None \<Rightarrow> (self, None)
      | Some theirs \<Rightarrow>
          (case textures theirs of
             None \<Rightarrow> (self, None)
           | Some ts \<Rightarrow>
               (case texture_offsets self of
                  Inl e \<Rightarrow> (self, Some e)
                | Inr (toffset, voffset, mine) \<Rightarrow>
                    (case vertices_texture theirs of
                       None \<Rightarrow> (self\<lparr>appearance := Some mine\<rparr>, Some KeyError)
                     | Some vt \<Rightarrow>
                         (let self1 =
                                self\<lparr>appearance :=
                                  Some (mine\<lparr>vertices_texture :=
                                               Some ((case vertices_texture mine of None \<Rightarrow> [] | Some l \<Rightarrow> l) @ vt),
                                             textures :=
                                               Some ((case textures mine of None \<Rightarrow> [] | Some l \<Rightarrow> l) @ ts)\<rparr>)\<rparr>
                          in case for_ids (each_geometry (offset_textures toffset voffset))
                                    (map fst (CityObjects cm)) (CityObjects self1) of
                               (objs, r) \<Rightarrow> (self1\<lparr>CityObjects := objs\<rparr>, r))))))"

subsection \<open>The merge\<close>

text \<open>The body of \<open>for cm in lsCMs:\<close> after \<open>cm.decompress()\<close>.\<close>

definition merge_one :: "CityJSON \<Rightarrow> CityJSON \<Rightarrow> CityJSON \<times> pyerr option" where
  "merge_one self cm =
     then_do (then_do (then_do (merge_vertices_cityobjects cm self) (merge_templates cm))
                (merge_materials cm))
       (merge_textures cm)"

text \<open>
  \<^verbatim>\<open>
        imp_digits = math.ceil(abs(math.log(self.j["transform"]["scale"][0], 10)))
        self.decompress()
        for cm in lsCMs:
            if math.ceil(abs(math.log(cm.j["transform"]["scale"][0], 10))) > imp_digits:
                imp_digits = math.ceil(abs(math.log(cm.j["transform"]["scale"][0], 10)))
            cm.decompress()
            ...
        self.remove_duplicate_vertices()
        self.remove_orphan_vertices()
        self.update_bbox()
        self.compress(imp_digits)
        return True
  \<close>
  \<open>math.log\<close> is a function of the C library, with no rounding that could be written
  down here: \<open>log_digits x\<close> stands for \<open>math.ceil(abs(math.log(x, 10)))\<close>, an int or
  the exception the logarithm raises, and is a parameter of the merge. \<open>update_bbox\<close>
  writes the metadata, which the model does not hold.
\<close>

fun merge_sources ::
  "(pynum \<Rightarrow> pyerr + int) \<Rightarrow> CityJSON list \<Rightarrow> CityJSON \<Rightarrow> int \<Rightarrow> (CityJSON, int) outcome" where
  "merge_sources log_digits [] self imp_digits = Returned self imp_digits"
| "merge_sources log_digits (cm # lsCMs) self imp_digits =
     (case transform cm of
        None \<Rightarrow> Raised KeyError self
      | Some t \<Rightarrow>
          (case log_digits (fst (scale t)) of
             Inl e \<Rightarrow> Raised e self
           | Inr d \<Rightarrow>
               (case merge_one self (fst (decompress cm)) of
                  (self', Some e) \<Rightarrow> Raised e self'
                | (self', None) \<Rightarrow>
                    merge_sources log_digits lsCMs self' (if d > imp_digits then d else imp_digits))))"

definition merge :: "(pynum \<Rightarrow> pyerr + int) \<Rightarrow> CityJSON \<Rightarrow> CityJSON list \<Rightarrow> (CityJSON, bool) outcome" where
  "merge log_digits self lsCMs =
     (case transform self of
        None \<Rightarrow> Raised KeyError self
      | Some t \<Rightarrow>
          (case log_digits (fst (scale t)) of
             Inl e \<Rightarrow> Raised e self
           | Inr imp_digits0 \<Rightarrow>
               (case merge_sources log_digits lsCMs (fst (decompress self)) imp_digits0 of
                  Raised e s \<Rightarrow> Raised e s
                | Returned s imp_digits \<Rightarrow>
                    (case remove_duplicate_vertices s of
                       Raised e s1 \<Rightarrow> Raised e s1
                     | Returned s1 removed \<Rightarrow>
                         (case remove_orphan_vertices s1 of
                            Raised e s2 \<Rightarrow> Raised e s2
                          | Returned s2 removed' \<Rightarrow>
                              (case compress (nat imp_digits) None s2 of
                                 Raised e s3 \<Rightarrow> Raised e s3
                               | Returned s3 b \<Rightarrow> Returned s3 True))))))"

section \<open>Vocabulary of the statements\<close>

text \<open>
  The index leaves of an array, in the order of the traversal, and those of every
  geometry of a dataset: the leaves the two passes of \<open>remove_orphan_vertices\<close> visit.
\<close>

fun flatten :: "nest list \<Rightarrow> nest list" where
  "flatten [] = []"
| "flatten (Nest b # a) = flatten b @ flatten a"
| "flatten (x # a) = x # flatten a"

definition cityobjects_leaves :: "(string \<times> CityObject) list \<Rightarrow> nest list" where
  "cityobjects_leaves objs =
     concat (map (\<lambda>(theid, co). case geometry co of
                                  None \<Rightarrow> []
                                | Some gs \<Rightarrow> concat (map (\<lambda>g. flatten (boundaries g)) gs)) objs)"

definition dataset_leaves :: "CityJSON \<Rightarrow> nest list" where
  "dataset_leaves cm = cityobjects_leaves (CityObjects cm)"

text \<open>A leaf is a valid index into a pool of \<open>n\<close> vertices.\<close>

fun valid_index :: "nat \<Rightarrow> nest \<Rightarrow> bool" where
  "valid_index n (Leaf i) = (0 \<le> i \<and> i < int n)"
| "valid_index n x = False"

text \<open>
  One step of \<open>visit_geom\<close> at a scalar member, the state its dictionary and list are
  in between steps, and the rewriting loops when no lookup raises.
\<close>

fun visit_scalar :: "nest \<Rightarrow> (nest \<times> nat) list \<times> nest list \<Rightarrow> (nest \<times> nat) list \<times> nest list" where
  "visit_scalar each (oldnewids, newvertices) =
     (if map_of oldnewids each = None
      then (oldnewids @ [(each, length newvertices)], newvertices @ [each])
      else (oldnewids, newvertices))"

definition wf_state :: "(nest \<times> nat) list \<times> nest list \<Rightarrow> bool" where
  "wf_state st = (fst st = zip (snd st) [0..<length (snd st)] \<and> distinct (snd st))"

fun map_leaves :: "(nest \<Rightarrow> nest) \<Rightarrow> nest list \<Rightarrow> nest list" where
  "map_leaves g [] = []"
| "map_leaves g (Nest b # a) = Nest (map_leaves g b) # map_leaves g a"
| "map_leaves g (x # a) = g x # map_leaves g a"

definition map_boundaries ::
  "(nest list \<Rightarrow> nest list) \<Rightarrow> (string \<times> CityObject) list \<Rightarrow> (string \<times> CityObject) list" where
  "map_boundaries h objs =
     map (\<lambda>(theid, co). (theid, case geometry co of
                                     None \<Rightarrow> co
                                   | Some gs \<Rightarrow> co\<lparr>geometry := Some (map (\<lambda>g. g\<lparr>boundaries := h (boundaries g)\<rparr>) gs)\<rparr>)) objs"

text \<open>
  A dataset of four vertices of which a single face uses two: the vertices 3 and 1.
\<close>

definition orphan_example :: CityJSON where
  "orphan_example =
     \<lparr>transform = None,
      vertices = [(PyInt 0, PyInt 0, PyInt 0), (PyInt 1, PyInt 0, PyInt 0),
                  (PyInt 2, PyInt 0, PyInt 0), (PyInt 3, PyInt 0, PyInt 0)],
      CityObjects =
        [(''a'', \<lparr>attributes = None,
                 geometry = Some [\<lparr>gtype = ''MultiSurface'', lod = Some ''1'',
                                   boundaries = [Nest [Nest [Leaf 3, Leaf 1, Leaf 3]]],
                                   material = None, texture = None, template = None\<rparr>]\<rparr>)],
      appearance = None, geometry_templates = None\<rparr>"

text \<open>
  No two different vertices of the pool are read back as the same vertex: the condition
  under which rewriting the pool by \<open>read_vertices\<close> keeps it free of duplicates.
\<close>

definition reads_apart :: "CityJSON \<Rightarrow> bool" where
  "reads_apart cm =
     list_all (\<lambda>u. list_all (\<lambda>v. read_vertex (transform cm \<noteq> None) u = read_vertex (transform cm \<noteq> None) v
                                    \<longrightarrow> u = v) (vertices cm)) (vertices cm)"

text \<open>
  A dataset without transform whose pool writes the same point once with ints,
  \<open>[1, 2, 3]\<close>, and once with floats, \<open>[1.0, 2.0, 3.0]\<close>, and what one and two runs of
  \<open>remove_duplicate_vertices\<close> make of it.
\<close>

definition mixed_pool :: CityJSON where
  "mixed_pool =
     \<lparr>transform = None,
      vertices = [(PyInt 1, PyInt 2, PyInt 3), (PyFloat 1, PyFloat 2, PyFloat 3)],
      CityObjects =
        [(''a'', \<lparr>attributes = None,
                 geometry = Some [\<lparr>gtype = ''MultiPoint'', lod = Some ''1'',
                                   boundaries = [Leaf 0, Leaf 1],
                                   material = None, texture = None, template = None\<rparr>]\<rparr>)],
      appearance = None, geometry_templates = None\<rparr>"

definition mixed_pool_once :: CityJSON where
  "mixed_pool_once =
     mixed_pool\<lparr>vertices := [(PyFloat 1, PyFloat 2, PyFloat 3), (PyFloat 1, PyFloat 2, PyFloat 3)]\<rparr>"

definition mixed_pool_twice :: CityJSON where
  "mixed_pool_twice =
     \<lparr>transform = None,
      vertices = [(PyFloat 1, PyFloat 2, PyFloat 3)],
      CityObjects =
        [(''a'', \<lparr>attributes = None,
                 geometry = Some [\<lparr>gtype = ''MultiPoint'', lod = Some ''1'',
                                   boundaries = [Leaf 0, Leaf 0],
                                   material = None, texture = None, template = None\<rparr>]\<rparr>)],
      appearance = None, geometry_templates = None\<rparr>"

text \<open>A pool of floats with one duplicate, and the dataset after one run.\<close>

definition float_pool :: CityJSON where
  "float_pool =
     \<lparr>transform = None,
      vertices = [(PyFloat (3 / 2), PyFloat 0, PyFloat 0), (PyFloat (3 / 2), PyFloat 0, PyFloat 0),
                  (PyFloat 2, PyFloat 0, PyFloat 0)],
      CityObjects =
        [(''a'', \<lparr>attributes = None,
                 geometry = Some [\<lparr>gtype = ''MultiPoint'', lod = Some ''1'',
                                   boundaries = [Leaf 0, Leaf 1, Leaf 2],
                                   material = None, texture = None, template = None\<rparr>]\<rparr>)],
      appearance = None, geometry_templates = None\<rparr>"

definition float_pool_once :: CityJSON where
  "float_pool_once =
     \<lparr>transform = None,
      vertices = [(PyFloat (3 / 2), PyFloat 0, PyFloat 0), (PyFloat 2, PyFloat 0, PyFloat 0)],
      CityObjects =
        [(''a'', \<lparr>attributes = None,
                 geometry = Some [\<lparr>gtype = ''MultiPoint'', lod = Some ''1'',
                                   boundaries = [Leaf 0, Leaf 0, Leaf 1],
                                   material = None, texture = None, template = None\<rparr>]\<rparr>)],
      appearance = None, geometry_templates = None\<rparr>"





text \<open>
  The number of digits \<open>merge\<close> reads off a dataset, 0 where it would raise instead.
\<close>

definition source_digits :: "(pynum \<Rightarrow> pyerr + int) \<Rightarrow> CityJSON \<Rightarrow> int" where
  "source_digits log_digits cm =
     (case transform cm of
        None \<Rightarrow> 0
      | Some t \<Rightarrow> (case log_digits (fst (scale t)) of Inl e \<Rightarrow> 0 | Inr d \<Rightarrow> d))"

text \<open>
  What CPython gives for \<open>math.ceil(abs(math.log(x, 10)))\<close> at the floats \<open>0.1\<close>,
  \<open>0.01\<close> and \<open>0.001\<close>: the logarithms are \<open>-0.9999999999999998\<close>,
  \<open>-1.9999999999999996\<close> and \<open>-2.9999999999999996\<close>. The table stands for
  \<open>log_digits\<close> at these three scales only.
\<close>

definition log_digits_table :: "pynum \<Rightarrow> pyerr + int" where
  "log_digits_table x =
     (if x = PyFloat (fl (1 / 10)) then Inr 1
      else if x = PyFloat (fl (1 / 100)) then Inr 2
      else if x = PyFloat (fl (1 / 1000)) then Inr 3
      else Inl ValueError)"

text \<open>
  Two quantized datasets: A with five vertices, all different and all used by its one
  face, at the scale \<open>0.001\<close>; B with three vertices and the triangle \<open>[0, 1, 2]\<close>, at
  the scale \<open>0.01\<close>. Then both after \<open>decompress\<close>, the target after the vertices and
  CityObjects of B are spliced in, and the target when \<open>merge\<close> has returned.
\<close>

definition millimetres :: Transform where
  "millimetres = \<lparr>scale = (PyFloat (fl (1 / 1000)), PyFloat (fl (1 / 1000)), PyFloat (fl (1 / 1000))),
                   translate = (PyFloat 0, PyFloat 0, PyFloat 0)\<rparr>"

definition centimetres :: Transform where
  "centimetres = \<lparr>scale = (PyFloat (fl (1 / 100)), PyFloat (fl (1 / 100)), PyFloat (fl (1 / 100))),
                   translate = (PyFloat 0, PyFloat 0, PyFloat 0)\<rparr>"

definition surface :: "nest list \<Rightarrow> Geometry" where
  "surface b = \<lparr>gtype = ''MultiSurface'', lod = Some ''1'', boundaries = b,
               material = None, texture = None, template = None\<rparr>"

definition object_a :: CityObject where
  "object_a = \<lparr>attributes = None,
               geometry = Some [surface [Nest [Nest [Leaf 0, Leaf 1, Leaf 2, Leaf 3, Leaf 4]]]]\<rparr>"

definition object_b :: CityObject where
  "object_b = \<lparr>attributes = None, geometry = Some [surface [Nest [Nest [Leaf 0, Leaf 1, Leaf 2]]]]\<rparr>"

definition merge_A :: CityJSON where
  "merge_A =
     \<lparr>transform = Some millimetres,
      vertices = [(PyInt 0, PyInt 0, PyInt 0), (PyInt 1000, PyInt 0, PyInt 0),
                  (PyInt 1000, PyInt 1000, PyInt 0), (PyInt 0, PyInt 1000, PyInt 0),
                  (PyInt 500, PyInt 1500, PyInt 0)],
      CityObjects = [(''a'', object_a)],
      appearance = None, geometry_templates = None\<rparr>"

definition merge_B :: CityJSON where
  "merge_B =
     \<lparr>transform = Some centimetres,
      vertices = [(PyInt 0, PyInt 0, PyInt 100), (PyInt 100, PyInt 0, PyInt 100),
                  (PyInt 0, PyInt 100, PyInt 100)],
      CityObjects = [(''b'', object_b)],
      appearance = None, geometry_templates = None\<rparr>"

definition merge_A_floats :: CityJSON where
  "merge_A_floats =
     \<lparr>transform = None,
      vertices = [(PyFloat 0, PyFloat 0, PyFloat 0), (PyFloat 1, PyFloat 0, PyFloat 0),
                  (PyFloat 1, PyFloat 1, PyFloat 0), (PyFloat 0, PyFloat 1, PyFloat 0),
                  (PyFloat (1 / 2), PyFloat (3 / 2), PyFloat 0)],
      CityObjects = [(''a'', object_a)],
      appearance = None, geometry_templates = None\<rparr>"

definition merge_B_floats :: CityJSON where
  "merge_B_floats =
     \<lparr>transform = None,
      vertices = [(PyFloat 0, PyFloat 0, PyFloat 1), (PyFloat 1, PyFloat 0, PyFloat 1),
                  (PyFloat 0, PyFloat 1, PyFloat 1)],
      CityObjects = [(''b'', object_b)],
      appearance = None, geometry_templates = None\<rparr>"

definition spliced_AB :: CityJSON where
  "spliced_AB =
     \<lparr>transform = None,
      vertices = [(PyFloat 0, PyFloat 0, PyFloat 0), (PyFloat 1, PyFloat 0, PyFloat 0),
                  (PyFloat 1, PyFloat 1, PyFloat 0), (PyFloat 0, PyFloat 1, PyFloat 0),
                  (PyFloat (1 / 2), PyFloat (3 / 2), PyFloat 0),
                  (PyFloat 0, PyFloat 0, PyFloat 1), (PyFloat 1, PyFloat 0, PyFloat 1),
                  (PyFloat 0, PyFloat 1, PyFloat 1)],
      CityObjects =
        [(''a'', object_a),
         (''b'', \<lparr>attributes = None, geometry = Some [surface [Nest [Nest [Leaf 5, Leaf 6, Leaf 7]]]]\<rparr>)],
      appearance = None, geometry_templates = None\<rparr>"

definition merged_AB :: CityJSON where
  "merged_AB =
     \<lparr>transform = Some millimetres,
      vertices = [(PyInt 0, PyInt 0, PyInt 0), (PyInt 1000, PyInt 0, PyInt 0),
                  (PyInt 1000, PyInt 1000, PyInt 0), (PyInt 0, PyInt 1000, PyInt 0),
                  (PyInt 500, PyInt 1500, PyInt 0),
                  (PyInt 0, PyInt 0, PyInt 1000), (PyInt 1000, PyInt 0, PyInt 1000),
                  (PyInt 0, PyInt 1000, PyInt 1000)],
      CityObjects =
        [(''a'', object_a),
         (''b'', \<lparr>attributes = None, geometry = Some [surface [Nest [Nest [Leaf 5, Leaf 6, Leaf 7]]]]\<rparr>)],
      appearance = None, geometry_templates = None\<rparr>"

text \<open>
  The body of the loop of \<open>merge\<close> run on a list of datasets, one after the other, as
  long as none raises: the target as the splicing leaves it.
\<close>

fun splice_all :: "CityJSON \<Rightarrow> CityJSON list \<Rightarrow> CityJSON \<times> pyerr option" where
  "splice_all self [] = (self, None)"
| "splice_all self (cm # cms) = then_do (merge_one self cm) (\<lambda>s. splice_all s cms)"










section \<open>Remove orphans: completeness of the compaction\<close>


lemma visit_geom_fold: "visit_geom a st = fold visit_scalar (flatten a) st"
  by (induction a st rule: visit_geom.induct) simp_all

lemma visit_cityobjects_fold:
  "visit_cityobjects objs st = fold visit_scalar (cityobjects_leaves objs) st"
proof (induction objs arbitrary: st)
  case Nil
  then show ?case by (simp add: visit_cityobjects_def cityobjects_leaves_def)
next
  case (Cons p objs)
  obtain theid co where p: "p = (theid, co)" by (cases p)
  have inner: "fold (\<lambda>g st. visit_geom (boundaries g) st) gs st
                 = fold visit_scalar (concat (map (\<lambda>g. flatten (boundaries g)) gs)) st" for gs st
    by (induction gs arbitrary: st) (simp_all add: visit_geom_fold)
  from Cons show ?case
    unfolding p by (simp add: visit_cityobjects_def cityobjects_leaves_def inner split: option.splits)
qed

lemma map_of_zip_None: "map_of (zip nv [0..<length nv]) x = None \<longleftrightarrow> x \<notin> set nv"
  by (simp add: map_of_zip_is_None)

lemma wf_visit_scalar: "wf_state st \<Longrightarrow> wf_state (visit_scalar x st)"
  by (cases st) (auto simp: wf_state_def map_of_zip_None)

lemma set_visit_scalar: "wf_state st \<Longrightarrow> set (snd (visit_scalar x st)) = insert x (set (snd st))"
  by (cases st) (auto simp: wf_state_def map_of_zip_None)

lemma wf_fold: "wf_state st \<Longrightarrow> wf_state (fold visit_scalar xs st)"
  by (induction xs arbitrary: st) (simp_all add: wf_visit_scalar)

lemma set_fold: "wf_state st \<Longrightarrow> set (snd (fold visit_scalar xs st)) = set xs \<union> set (snd st)"
  by (induction xs arbitrary: st) (simp_all add: wf_visit_scalar set_visit_scalar)

lemma map_of_zip_index:
  "distinct nv \<Longrightarrow> i < length nv \<Longrightarrow> map_of (zip nv [0..<length nv]) (nv ! i) = Some i"
  by (metis (no_types, lifting) distinct_upt length_upt  map_of_zip_nth diff_zero nth_upt plus_nat.add_0)


lemma update_leaves_total:
  "(\<And>x. x \<in> set (flatten a) \<Longrightarrow> f x = Inr (g x)) \<Longrightarrow> update_leaves f a = (map_leaves g a, None)"
  by (induction f a rule: update_leaves.induct) auto

lemma flatten_scalar_Cons: "is_scalar y \<Longrightarrow> flatten (y # a) = y # flatten a"
  by (cases y) simp_all

lemma flatten_map_leaves:
  "(\<And>x. is_scalar (g x)) \<Longrightarrow> flatten (map_leaves g a) = map g (flatten a)"
  by (induction g a rule: map_leaves.induct) (simp_all add: flatten_scalar_Cons)

lemma update_geometries_total:
  "(\<And>g. g \<in> set gs \<Longrightarrow> upd (boundaries g) = (h (boundaries g), None))
   \<Longrightarrow> update_geometries upd gs = (map (\<lambda>g. g\<lparr>boundaries := h (boundaries g)\<rparr>) gs, None)"
  by (induction gs) auto

lemma update_cityobjects_total:
  "(\<And>theid co gs g. (theid, co) \<in> set objs \<Longrightarrow> geometry co = Some gs \<Longrightarrow> g \<in> set gs
       \<Longrightarrow> upd (boundaries g) = (h (boundaries g), None))
   \<Longrightarrow> update_cityobjects upd objs = (map_boundaries h objs, None)"
proof (induction objs)
  case Nil
  then show ?case by (simp add: map_boundaries_def)
next
  case (Cons p objs)
  obtain theid co where p: "p = (theid, co)" by (cases p)
  have rest: "update_cityobjects upd objs = (map_boundaries h objs, None)"
    using Cons by (auto simp: p)
  show ?case
  proof (cases "geometry co")
    case None
    then show ?thesis by (simp add: p rest map_boundaries_def)
  next
    case (Some gs)
    have "update_geometries upd gs = (map (\<lambda>g. g\<lparr>boundaries := h (boundaries g)\<rparr>) gs, None)"
      by (rule update_geometries_total) (use Cons.prems Some in \<open>auto simp: p\<close>)
    then show ?thesis by (simp add: p rest Some map_boundaries_def)
  qed
qed

lemma leaves_map_boundaries:
  "(\<And>a. flatten (h a) = map g (flatten a))
   \<Longrightarrow> cityobjects_leaves (map_boundaries h objs) = map g (cityobjects_leaves objs)"
proof (induction objs)
  case Nil
  then show ?case by (simp add: map_boundaries_def cityobjects_leaves_def)
next
  case (Cons p objs)
  obtain theid co where p: "p = (theid, co)" by (cases p)
  have inner: "concat (map (\<lambda>g. flatten (boundaries g)) (map (\<lambda>g. g\<lparr>boundaries := h (boundaries g)\<rparr>) gs))
       = map g (concat (map (\<lambda>g. flatten (boundaries g)) gs))" for gs
    by (induction gs) (simp_all add: Cons.prems)
  from Cons show ?case
    by (cases "geometry co") (simp_all add: p map_boundaries_def cityobjects_leaves_def inner [unfolded map_map])
qed

lemma in_leaves_geometry:
  "(theid, co) \<in> set objs \<Longrightarrow> geometry co = Some gs \<Longrightarrow> g \<in> set gs \<Longrightarrow> x \<in> set (flatten (boundaries g))
   \<Longrightarrow> x \<in> set (cityobjects_leaves objs)"
  by (force simp: cityobjects_leaves_def)

lemma gather_vertices_ok:
  "(\<And>x. x \<in> set nv \<Longrightarrow> valid_index (length vs) x)
   \<Longrightarrow> \<exists>newv2. gather_vertices vs nv = Inr newv2 \<and> length newv2 = length nv"
proof (induction nv)
  case Nil
  then show ?case by simp
next
  case (Cons x nv)
  then obtain newv2 where r: "gather_vertices vs nv = Inr newv2" "length newv2 = length nv"
    by auto
  from Cons.prems [of x] obtain i where "x = Leaf i" "0 \<le> i" "i < int (length vs)"
    by (cases x) auto
  then show ?case by (simp add: r py_index_def)
qed


text \<open>
  Claim C2. When every index leaf of every geometry is a valid index into the vertex
  pool, \<open>remove_orphan_vertices\<close> returns, every position of the pool it leaves is the
  value of some leaf of some geometry, and every leaf of every geometry is an index below
  the length of that pool.
\<close>

theorem orphan_compaction_complete:
  assumes valid: "\<forall>x \<in> set (dataset_leaves cm). valid_index (length (vertices cm)) x"
  shows "\<exists>cm' removed. remove_orphan_vertices cm = Returned cm' removed
           \<and> (\<forall>j < length (vertices cm'). Leaf (int j) \<in> set (dataset_leaves cm'))
           \<and> (\<forall>x \<in> set (dataset_leaves cm'). valid_index (length (vertices cm')) x)"
proof -
  define flat where "flat = cityobjects_leaves (CityObjects cm)"
  obtain ids nv where st: "visit_cityobjects (CityObjects cm) ([], []) = (ids, nv)"
    by (cases "visit_cityobjects (CityObjects cm) ([], [])")
  have fold_st: "fold visit_scalar flat ([], []) = (ids, nv)"
    using st by (simp add: visit_cityobjects_fold flat_def)
  have wf0: "wf_state ([], [])" by (simp add: wf_state_def)
  have wf: "wf_state (ids, nv)" using wf_fold [OF wf0, of flat] fold_st by simp
  have set_nv: "set nv = set flat" using set_fold [OF wf0, of flat] fold_st by simp
  have ids: "ids = zip nv [0..<length nv]" and dist: "distinct nv"
    using wf by (simp_all add: wf_state_def)
  define g where "g x = Leaf (int (the (map_of ids x)))" for x
  have look: "map_of ids (nv ! i) = Some i" if "i < length nv" for i
    using map_of_zip_index [OF dist that] by (simp add: ids)
  have g_nth: "g (nv ! i) = Leaf (int i)" if "i < length nv" for i
    using look [OF that] by (simp add: g_def)
  have in_nv: "\<exists>i < length nv. x = nv ! i" if "x \<in> set flat" for x
    using that set_nv by (metis in_set_conv_nth)
  have f_total: "(case map_of ids x of None \<Rightarrow> Inl KeyError | Some k \<Rightarrow> Inr (Leaf (int k))) = Inr (g x)"
    if "x \<in> set flat" for x
    using in_nv [OF that] look by (auto simp: g_def)
  have upd: "update_face (boundaries ge) ids = (map_leaves g (boundaries ge), None)"
    if "(theid, co) \<in> set (CityObjects cm)" "geometry co = Some gs" "ge \<in> set gs" for theid co gs ge
    unfolding update_face_def
    by (rule update_leaves_total) (use that in \<open>auto intro!: f_total in_leaves_geometry simp: flat_def\<close>)
  have objs: "update_cityobjects (\<lambda>a. update_face a ids) (CityObjects cm)
                = (map_boundaries (map_leaves g) (CityObjects cm), None)"
    by (rule update_cityobjects_total) (use upd in auto)
  have leaves': "cityobjects_leaves (map_boundaries (map_leaves g) (CityObjects cm)) = map g flat"
    unfolding flat_def by (rule leaves_map_boundaries, rule flatten_map_leaves) (simp add: g_def)
  have "\<And>x. x \<in> set nv \<Longrightarrow> valid_index (length (vertices cm)) x"
    using valid set_nv by (simp add: dataset_leaves_def flat_def)
  then obtain newv2 where gv: "gather_vertices (vertices cm) nv = Inr newv2" "length newv2 = length nv"
    using gather_vertices_ok by blast
  define cm' where "cm' = cm\<lparr>CityObjects := map_boundaries (map_leaves g) (CityObjects cm), vertices := newv2\<rparr>"
  have res: "remove_orphan_vertices cm = Returned cm' (int (length (vertices cm)) - int (length newv2))"
    by (simp add: remove_orphan_vertices_def st objs gv cm'_def)
  have dl: "dataset_leaves cm' = map g flat" by (simp add: dataset_leaves_def cm'_def leaves')
  have len: "length (vertices cm') = length nv" by (simp add: cm'_def gv)
  have ref: "Leaf (int j) \<in> set (dataset_leaves cm')" if "j < length (vertices cm')" for j
  proof -
    have j: "j < length nv" using that len by simp
    then have "nv ! j \<in> set flat" using set_nv by (metis nth_mem)
    then have "g (nv ! j) \<in> set (map g flat)" by simp
    then show ?thesis using g_nth [OF j] dl by simp
  qed
  have bound: "valid_index (length (vertices cm')) x" if "x \<in> set (dataset_leaves cm')" for x
  proof -
    from that dl obtain y where y: "y \<in> set flat" "x = g y" by auto
    then obtain i where "i < length nv" "y = nv ! i" using in_nv by blast
    then show ?thesis using y g_nth len by simp
  qed
  show ?thesis using res ref bound by blast
qed

lemma orphan_example_run:
  "remove_orphan_vertices orphan_example
     = Returned (orphan_example
                   \<lparr>CityObjects :=
                      [(''a'', \<lparr>attributes = None,
                               geometry = Some [\<lparr>gtype = ''MultiSurface'', lod = Some ''1'',
                                                 boundaries = [Nest [Nest [Leaf 0, Leaf 1, Leaf 0]]],
                                                 material = None, texture = None, template = None\<rparr>]\<rparr>)],
                    vertices := [(PyInt 3, PyInt 0, PyInt 0), (PyInt 1, PyInt 0, PyInt 0)]\<rparr>) 2"
  by (simp add: remove_orphan_vertices_def orphan_example_def visit_cityobjects_def
      update_face_def py_index_def)

theorem orphan_compaction_complete_witness:
  "list_all (valid_index (length (vertices orphan_example))) (dataset_leaves orphan_example)
   \<and> (\<exists>cm' removed. remove_orphan_vertices orphan_example = Returned cm' removed
         \<and> (\<forall>j < length (vertices cm'). Leaf (int j) \<in> set (dataset_leaves cm'))
         \<and> (\<forall>x \<in> set (dataset_leaves cm'). valid_index (length (vertices cm')) x))"
proof -
  have h: "\<forall>x \<in> set (dataset_leaves orphan_example).
             valid_index (length (vertices orphan_example)) x"
    by (simp add: orphan_example_def dataset_leaves_def cityobjects_leaves_def)
  show ?thesis
    using orphan_compaction_complete [OF h] h by (simp add: list_all_iff)
qed

section \<open>Deduplicate: idempotence\<close>


lemma zip_upt_snoc:
  "zip (nv @ [s]) [0..<Suc (length nv)] = zip nv [0..<length nv] @ [(s, length nv)]"
  by simp

lemma dedup_scan_distinct:
  "distinct (nv @ vs) \<Longrightarrow> h = zip nv [0..<length nv] \<Longrightarrow> length newids = length nv + length vs
   \<Longrightarrow> dedup_scan vs (length nv) h newids nv
       = (zip (nv @ vs) [0..<length (nv @ vs)],
          take (length nv) newids @ map int [length nv..<length nv + length vs],
          nv @ vs)"
proof (induction vs arbitrary: nv h newids)
  case Nil
  then show ?case by simp
next
  case (Cons s vs)
  have notin: "map_of h s = None"
    using Cons.prems by (simp add: map_of_zip_None)
  have lenh: "length h = length nv" using Cons.prems by simp
  have step: "dedup_scan vs (length (nv @ [s])) (h @ [(s, length nv)]) (newids[length nv := int (length nv)]) (nv @ [s])
      = (zip ((nv @ [s]) @ vs) [0..<length ((nv @ [s]) @ vs)],
          take (length (nv @ [s])) (newids[length nv := int (length nv)])
            @ map int [length (nv @ [s])..<length (nv @ [s]) + length vs],
          (nv @ [s]) @ vs)"
    by (rule Cons.IH) (use Cons.prems in auto)
  have tk: "take (Suc (length nv)) (newids[length nv := int (length nv)]) = take (length nv) newids @ [int (length nv)]"
    using Cons.prems by (simp add: take_Suc_conv_app_nth)
  show ?case
    using step by (simp add: notin lenh tk upt_conv_Cons Let_def del: upt_Suc)
qed

lemma dedup_scan_inv:
  "h = zip nv [0..<length nv] \<Longrightarrow> distinct nv \<Longrightarrow> dedup_scan vs i h newids nv = (h', newids', nv')
   \<Longrightarrow> distinct nv' \<and> h' = zip nv' [0..<length nv'] \<and> set nv' = set nv \<union> set vs
       \<and> length newids' = length newids \<and> length nv \<le> length nv'
       \<and> (\<forall>j < i. newids' ! j = newids ! j)
       \<and> (\<forall>j. i \<le> j \<and> j < i + length vs \<and> j < length newids
               \<longrightarrow> 0 \<le> newids' ! j \<and> newids' ! j < int (length nv'))"
proof (induction vs arbitrary: i h newids nv)
  case Nil
  then show ?case by auto
next
  case (Cons s vs)
  show ?case
  proof (cases "map_of h s")
    case None
    then have notin: "s \<notin> set nv" using Cons.prems by (simp add: map_of_zip_None)
    have lenh: "length h = length nv" using Cons.prems by simp
    have run: "dedup_scan vs (Suc i) (h @ [(s, length nv)]) (newids[i := int (length nv)]) (nv @ [s]) = (h', newids', nv')"
      using Cons.prems(3) None by (simp add: lenh Let_def)
    have IH: "distinct nv' \<and> h' = zip nv' [0..<length nv'] \<and> set nv' = set (nv @ [s]) \<union> set vs
       \<and> length newids' = length (newids[i := int (length nv)]) \<and> length (nv @ [s]) \<le> length nv'
       \<and> (\<forall>j < Suc i. newids' ! j = (newids[i := int (length nv)]) ! j)
       \<and> (\<forall>j. Suc i \<le> j \<and> j < Suc i + length vs \<and> j < length (newids[i := int (length nv)])
               \<longrightarrow> 0 \<le> newids' ! j \<and> newids' ! j < int (length nv'))"
      by (rule Cons.IH [OF _ _ run]) (use Cons.prems notin in auto)
    have at_i: "i < length newids \<Longrightarrow> newids' ! i = int (length nv)"
      using IH by simp
    show ?thesis
    proof (intro conjI allI impI)
      fix j assume j: "i \<le> j \<and> j < i + length (s # vs) \<and> j < length newids"
      show "0 \<le> newids' ! j"
        using IH j at_i by (cases "j = i") auto
      show "newids' ! j < int (length nv')"
        using IH j at_i by (cases "j = i") auto
    qed (use IH in auto)
  next
    case (Some k)
    then have "(s, k) \<in> set (zip nv [0..<length nv])"
      using Cons.prems by (auto dest: map_of_SomeD)
    then have kin: "s \<in> set nv" "k < length nv"
      by (auto dest: set_zip_leftD set_zip_rightD)
    have run: "dedup_scan vs (Suc i) h (newids[i := int k]) nv = (h', newids', nv')"
      using Cons.prems(3) Some by simp
    have IH: "distinct nv' \<and> h' = zip nv' [0..<length nv'] \<and> set nv' = set nv \<union> set vs
       \<and> length newids' = length (newids[i := int k]) \<and> length nv \<le> length nv'
       \<and> (\<forall>j < Suc i. newids' ! j = (newids[i := int k]) ! j)
       \<and> (\<forall>j. Suc i \<le> j \<and> j < Suc i + length vs \<and> j < length (newids[i := int k])
               \<longrightarrow> 0 \<le> newids' ! j \<and> newids' ! j < int (length nv'))"
      by (rule Cons.IH [OF _ _ run]) (use Cons.prems in auto)
    have at_i: "i < length newids \<Longrightarrow> newids' ! i = int k"
      using IH by simp
    show ?thesis
    proof (intro conjI allI impI)
      fix j assume j: "i \<le> j \<and> j < i + length (s # vs) \<and> j < length newids"
      show "0 \<le> newids' ! j"
        using IH j at_i by (cases "j = i") auto
      show "newids' ! j < int (length nv')"
        using IH j at_i kin by (cases "j = i") auto
    qed (use IH kin in auto)
  qed
qed


lemma update_leaves_None_leaves:
  "update_leaves f a = (a', None) \<Longrightarrow> (\<And>x y. f x = Inr y \<Longrightarrow> is_scalar y \<and> P y)
   \<Longrightarrow> \<forall>y \<in> set (flatten a'). P y"
  by (induction f a arbitrary: a' rule: update_leaves.induct)
     (auto split: prod.splits option.splits sum.splits simp: flatten_scalar_Cons)

lemma cityobjects_leaves_Cons:
  "cityobjects_leaves ((theid, co) # objs)
     = (case geometry co of None \<Rightarrow> [] | Some gs \<Rightarrow> concat (map (\<lambda>g. flatten (boundaries g)) gs))
       @ cityobjects_leaves objs"
  by (simp add: cityobjects_leaves_def)

lemma update_geometries_None_leaves:
  "update_geometries upd gs = (gs', None)
   \<Longrightarrow> (\<And>a a'. upd a = (a', None) \<Longrightarrow> \<forall>y \<in> set (flatten a'). P y)
   \<Longrightarrow> \<forall>y \<in> set (concat (map (\<lambda>g. flatten (boundaries g)) gs')). P y"
proof (induction gs arbitrary: gs')
  case Nil
  then show ?case by simp
next
  case (Cons g gs)
  obtain b r where u: "upd (boundaries g) = (b, r)" by (cases "upd (boundaries g)")
  obtain gs1 r1 where rest: "update_geometries upd gs = (gs1, r1)" by (cases "update_geometries upd gs")
  from Cons.prems(1) u rest have r: "r = None" "r1 = None" "gs' = g\<lparr>boundaries := b\<rparr> # gs1"
    by (auto split: option.splits)
  have "\<forall>y \<in> set (flatten b). P y" using Cons.prems(2) u r by blast
  moreover have "\<forall>y \<in> set (concat (map (\<lambda>g. flatten (boundaries g)) gs1)). P y"
    using Cons.IH [of gs1] rest r Cons.prems(2) by blast
  ultimately show ?case using r by auto
qed

lemma update_cityobjects_None_leaves:
  "update_cityobjects upd objs = (objs', None)
   \<Longrightarrow> (\<And>a a'. upd a = (a', None) \<Longrightarrow> \<forall>y \<in> set (flatten a'). P y)
   \<Longrightarrow> \<forall>y \<in> set (cityobjects_leaves objs'). P y"
proof (induction objs arbitrary: objs')
  case Nil
  then show ?case by (simp add: cityobjects_leaves_def)
next
  case (Cons p objs)
  obtain theid co where p: "p = (theid, co)" by (cases p)
  obtain objs1 r1 where rest: "update_cityobjects upd objs = (objs1, r1)"
    by (cases "update_cityobjects upd objs")
  show ?case
  proof (cases "geometry co")
    case None
    with Cons.prems(1) p rest have r: "r1 = None" "objs' = (theid, co) # objs1" by auto
    have "\<forall>y \<in> set (cityobjects_leaves objs1). P y"
      using Cons.IH [of objs1] rest r Cons.prems(2) by blast
    then show ?thesis using r None by (simp add: cityobjects_leaves_Cons)
  next
    case (Some gs)
    obtain gs1 r where g: "update_geometries upd gs = (gs1, r)" by (cases "update_geometries upd gs")
    from Cons.prems(1) p rest Some g
    have r: "r = None" "r1 = None" "objs' = (theid, co\<lparr>geometry := Some gs1\<rparr>) # objs1"
      by (auto split: option.splits)
    have a: "\<forall>y \<in> set (concat (map (\<lambda>g. flatten (boundaries g)) gs1)). P y"
      using update_geometries_None_leaves [of upd gs gs1 P] g r Cons.prems(2) by blast
    have b: "\<forall>y \<in> set (cityobjects_leaves objs1). P y"
      using Cons.IH [of objs1] rest r Cons.prems(2) by blast
    show ?thesis using a b r by (auto simp: cityobjects_leaves_Cons)
  qed
qed

lemma py_index_Inr_mem: "py_index xs i = Inr k \<Longrightarrow> k \<in> set xs"
  by (auto simp: py_index_def split: if_splits)

lemma read_vertex_fixed: "read_vertex t v = Inr a \<Longrightarrow> read_vertex t a = Inr a"
proof (cases t)
  case True
  assume r: "read_vertex t v = Inr a"
  obtain x y z where v: "v = (x, y, z)" by (cases v)
  from r True v show ?thesis
    by (cases x; cases y; cases z) auto
next
  case False
  assume r: "read_vertex t v = Inr a"
  obtain x y z where v: "v = (x, y, z)" by (cases v)
  from r False v show ?thesis by (auto simp: read_float_def)
qed

lemma read_vertices_map:
  "read_vertices t nv = Inr newv2
   \<Longrightarrow> list_all2 (\<lambda>v a. read_vertex t v = Inr a) nv newv2"
  by (induction nv arbitrary: newv2) (auto split: sum.splits)

lemma read_vertices_fixed:
  "(\<And>v. v \<in> set vs \<Longrightarrow> read_vertex t v = Inr v) \<Longrightarrow> read_vertices t vs = Inr vs"
  by (induction vs) auto

lemma map_leaves_ident: "(\<And>x. x \<in> set (flatten a) \<Longrightarrow> g x = x) \<Longrightarrow> map_leaves g a = a"
  by (induction g a rule: map_leaves.induct) auto


lemma map_boundaries_ident:
  "(\<And>theid co gs g. (theid, co) \<in> set objs \<Longrightarrow> geometry co = Some gs \<Longrightarrow> g \<in> set gs
       \<Longrightarrow> h (boundaries g) = boundaries g)
   \<Longrightarrow> map_boundaries h objs = objs"
proof (induction objs)
  case Nil
  then show ?case by (simp add: map_boundaries_def)
next
  case (Cons p objs)
  obtain theid co where p: "p = (theid, co)" by (cases p)
  have rest: "map_boundaries h objs = objs" using Cons by (auto simp: p)
  show ?case
  proof (cases "geometry co")
    case None
    then show ?thesis using rest by (simp add: p map_boundaries_def)
  next
    case (Some gs)
    have "map (\<lambda>g. g\<lparr>boundaries := h (boundaries g)\<rparr>) gs = gs"
      using Cons.prems [of theid co gs] Some by (simp add: p map_idI)
    then show ?thesis using rest Some by (simp add: p map_boundaries_def)
  qed
qed

text \<open>
  Claim C3, as amended. When \<open>remove_duplicate_vertices\<close> returns on a dataset in which
  no two different vertices are read back as the same vertex (as in every pool of floats
  without transform, and every pool of ints with one), a second run right after it
  removes nothing and leaves the dataset, its vertex pool included, as the first run
  left it.
\<close>

theorem dedup_idempotent:
  assumes run: "remove_duplicate_vertices cm = Returned cm1 removed"
    and apart: "reads_apart cm"
  shows "remove_duplicate_vertices cm1 = Returned cm1 0"
proof -
  define n where "n = length (vertices cm)"
  define t where "t = (transform cm \<noteq> None)"
  obtain h newids nv where scan:
    "dedup_scan (vertices cm) 0 [] (replicate n (- 1)) [] = (h, newids, nv)"
    by (cases "dedup_scan (vertices cm) 0 [] (replicate n (- 1)) []") auto
  obtain objs1 r where upd:
    "update_cityobjects (\<lambda>a. update_geom_indices_newids a newids) (CityObjects cm) = (objs1, r)"
    by (cases "update_cityobjects (\<lambda>a. update_geom_indices_newids a newids) (CityObjects cm)")
  from run scan upd have r: "r = None"
    by (auto simp: remove_duplicate_vertices_def n_def Let_def split: option.splits sum.splits)
  from run scan upd r obtain newv2 where rd: "read_vertices t nv = Inr newv2"
    and cm1: "cm1 = cm\<lparr>CityObjects := objs1, vertices := newv2\<rparr>"
    by (auto simp: remove_duplicate_vertices_def n_def t_def Let_def split: sum.splits)
  have inv: "distinct nv \<and> h = zip nv [0..<length nv] \<and> set nv = set [] \<union> set (vertices cm)
       \<and> length newids = length (replicate n (- 1 :: int)) \<and> length ([] :: vertex list) \<le> length nv
       \<and> (\<forall>j < 0. newids ! j = (replicate n (- 1)) ! j)
       \<and> (\<forall>j. 0 \<le> j \<and> j < 0 + length (vertices cm) \<and> j < length (replicate n (- 1 :: int))
               \<longrightarrow> 0 \<le> newids ! j \<and> newids ! j < int (length nv))"
    by (rule dedup_scan_inv [OF _ _ scan]) simp_all
  have dist: "distinct nv" and set_nv: "set nv = set (vertices cm)" and len_ids: "length newids = n"
    using inv by simp_all
  have ids_range: "0 \<le> k \<and> k < int (length nv)" if "k \<in> set newids" for k
  proof -
    from that obtain j where "j < length newids" "newids ! j = k" by (auto simp: in_set_conv_nth)
    then show ?thesis using inv len_ids by (auto simp: n_def)
  qed
  have l2: "list_all2 (\<lambda>v a. read_vertex t v = Inr a) nv newv2"
    using read_vertices_map [OF rd] .
  have len2: "length newv2 = length nv" using l2 by (simp add: list_all2_lengthD)
  have fixed: "read_vertex t a = Inr a" if "a \<in> set newv2" for a
  proof -
    from that obtain i where i: "i < length newv2" "newv2 ! i = a" by (auto simp: in_set_conv_nth)
    then have "read_vertex t (nv ! i) = Inr a" using l2 by (auto simp: list_all2_conv_all_nth)
    then obtain v where "read_vertex t v = Inr a" by blast
    then show ?thesis by (rule read_vertex_fixed)
  qed
  have inj: "u = v" if "u \<in> set nv" "v \<in> set nv" "read_vertex t u = read_vertex t v" for u v
    using apart that set_nv by (auto simp: reads_apart_def t_def list_all_iff)
  have dist2: "distinct newv2"
  proof (rule ccontr)
    assume "\<not> distinct newv2"
    then obtain i j where ij: "i < length newv2" "j < length newv2" "i \<noteq> j" "newv2 ! i = newv2 ! j"
      by (auto simp: distinct_conv_nth)
    then have "read_vertex t (nv ! i) = read_vertex t (nv ! j)"
      using l2 by (simp add: list_all2_conv_all_nth)
    then have "nv ! i = nv ! j" using inj ij len2 by simp
    then show False using dist ij len2 by (simp add: nth_eq_iff_index_eq)
  qed
  have leaves1: "\<forall>y \<in> set (cityobjects_leaves objs1). valid_index (length nv) y"
  proof (rule update_cityobjects_None_leaves [OF upd [unfolded r]])
    fix a a' assume u: "update_geom_indices_newids a newids = (a', None)"
    show "\<forall>y \<in> set (flatten a'). valid_index (length nv) y"
      by (rule update_leaves_None_leaves [OF u [unfolded update_geom_indices_newids_def]])
         (auto split: nest.splits sum.splits dest!: py_index_Inr_mem ids_range)
  qed
  define m where "m = length newv2"
  have scan2: "dedup_scan newv2 0 [] (replicate m (- 1)) []
       = (zip newv2 [0..<m], map int [0..<m], newv2)"
    using dedup_scan_distinct [of "[]" newv2 "[]" "replicate m (- 1)"] dist2 by (simp add: m_def)
  have look: "update_geom_indices_newids (boundaries g) (map int [0..<m]) = (map_leaves (\<lambda>x. x) (boundaries g), None)"
    if "(theid, co) \<in> set objs1" "geometry co = Some gs" "g \<in> set gs" for theid co gs g
    unfolding update_geom_indices_newids_def
  proof (rule update_leaves_total)
    fix x assume "x \<in> set (flatten (boundaries g))"
    then have "x \<in> set (cityobjects_leaves objs1)" using that by (rule_tac in_leaves_geometry)
    then have "valid_index (length nv) x" using leaves1 by blast
    then obtain i where "x = Leaf i" "0 \<le> i" "i < int m" by (cases x) (auto simp: m_def len2)
    then show "(case x of Leaf n \<Rightarrow> (case py_index (map int [0..<m]) n of Inl e \<Rightarrow> Inl e | Inr k \<Rightarrow> Inr (Leaf k))
               | _ \<Rightarrow> Inl TypeError) = Inr x"
      by (simp add: py_index_def)
  qed
  have upd2: "update_cityobjects (\<lambda>a. update_geom_indices_newids a (map int [0..<m])) objs1
                = (map_boundaries (map_leaves (\<lambda>x. x)) objs1, None)"
    by (rule update_cityobjects_total) (use look in auto)
  have same: "map_boundaries (map_leaves (\<lambda>x. x)) objs1 = objs1"
    by (rule map_boundaries_ident) (simp add: map_leaves_ident)
  have rd2: "read_vertices t newv2 = Inr newv2"
    by (rule read_vertices_fixed) (rule fixed)
  show ?thesis
    by (simp add: remove_duplicate_vertices_def Let_def cm1 scan2 [unfolded m_def] upd2 [unfolded m_def] same
        rd2 [unfolded t_def, simplified])
qed

theorem dedup_idempotent_witness:
  "remove_duplicate_vertices float_pool = Returned float_pool_once 1
   \<and> reads_apart float_pool
   \<and> remove_duplicate_vertices float_pool_once = Returned float_pool_once 0"
proof -
  have run: "remove_duplicate_vertices float_pool = Returned float_pool_once 1"
    by (simp add: remove_duplicate_vertices_def float_pool_def float_pool_once_def
        update_geom_indices_newids_def py_index_def read_float_def)
  have apart: "reads_apart float_pool"
    by (simp add: reads_apart_def float_pool_def read_float_def)
  show ?thesis
    using dedup_idempotent [OF run apart] run apart by simp
qed

text \<open>
  The claim as stated fails on \<open>mixed_pool\<close>: the keys \<open>1 2 3\<close> and \<open>1.0 2.0 3.0\<close>
  differ, so the first run removes nothing, but it writes both vertices back as floats;
  the second run then finds them equal, removes one and changes the pool.
\<close>

lemma fl_small: "fl 1 = 1" "fl 2 = 2" "fl 3 = 3"
  by code_simp+

theorem dedup_mixed_pool_counterexample:
  "remove_duplicate_vertices mixed_pool = Returned mixed_pool_once 0
   \<and> remove_duplicate_vertices mixed_pool_once = Returned mixed_pool_twice 1
   \<and> vertices mixed_pool_twice \<noteq> vertices mixed_pool_once"
  by (simp add: remove_duplicate_vertices_def mixed_pool_def mixed_pool_once_def mixed_pool_twice_def
      update_geom_indices_newids_def py_index_def read_float_def fl_small)

section \<open>Quantize and dequantize: the round trip\<close>




section \<open>Merge: the vertex offset\<close>





lemma map_of_append_new: "map_of (d @ [(k, v)]) k' = (if map_of d k' = None \<and> k' = k then Some v else map_of d k')"
  by (auto simp: map_add_def split: option.splits)









lemma decompress_merge_A: "decompress merge_A = (merge_A_floats, True)"
  by code_simp

lemma decompress_merge_B: "decompress merge_B = (merge_B_floats, True)"
  by code_simp

lemma splice_AB: "merge_vertices_cityobjects merge_B_floats merge_A_floats = (spliced_AB, None)"
  by (simp add: merge_vertices_cityobjects_def merge_cityobject_def copy_cityobject_def
      offset_boundaries_def merge_A_floats_def merge_B_floats_def spliced_AB_def
      object_a_def object_b_def surface_def)

lemma merge_AB_run: "merge log_digits_table merge_A [merge_B] = Returned merged_AB True"
  by code_simp


text \<open>
  The same two datasets through the whole of \<open>merge\<close>: both are dequantized, B is
  spliced in, no vertex is a duplicate or an orphan, and the pool of eight vertices is
  quantized again; the face of B is \<open>[5, 6, 7]\<close>.
\<close>

lemma merge_AB_face:
  "merge log_digits_table merge_A [merge_B] = Returned merged_AB True
   \<and> length (vertices merged_AB) = 8
   \<and> map_of (CityObjects merged_AB) ''b''
       = Some \<lparr>attributes = None, geometry = Some [surface [Nest [Nest [Leaf 5, Leaf 6, Leaf 7]]]]\<rparr>"
  by (simp add: merge_AB_run) (simp add: merged_AB_def)

section \<open>Merge: transforms and precision\<close>


lemma merge_sources_unquantized:
  "transform cm = None
   \<Longrightarrow> merge_sources log_digits (pre @ cm # rest) acc d
       = (case merge_sources log_digits pre acc d of
            Raised e s \<Rightarrow> Raised e s
          | Returned s d' \<Rightarrow> Raised KeyError s)"
  by (induction pre arbitrary: acc d) (auto split: option.splits sum.splits prod.splits)

lemma transform_then_do:
  "(\<And>s. transform (fst (f s)) = transform s) \<Longrightarrow> transform (fst (then_do x f)) = transform (fst x)"
  by (auto simp: then_do_def split: prod.splits option.splits)

lemma transform_merge_vertices_cityobjects:
  "transform (fst (merge_vertices_cityobjects cm self)) = transform self"
  by (simp add: merge_vertices_cityobjects_def Let_def split: prod.splits)

lemma transform_merge_templates: "transform (fst (merge_templates cm self)) = transform self"
  by (simp add: merge_templates_def Let_def split: prod.splits option.splits)

lemma transform_merge_materials: "transform (fst (merge_materials cm self)) = transform self"
  by (simp add: merge_materials_def Let_def split: prod.splits option.splits)

lemma transform_merge_textures: "transform (fst (merge_textures cm self)) = transform self"
  by (simp add: merge_textures_def Let_def split: prod.splits option.splits sum.splits)

lemma transform_merge_one: "transform (fst (merge_one self cm)) = transform self"
  by (simp add: merge_one_def transform_then_do transform_merge_vertices_cityobjects
      transform_merge_templates transform_merge_materials transform_merge_textures)

lemma merge_sources_Returned:
  "merge_sources log_digits lsCMs acc d = Returned s d'
   \<Longrightarrow> transform s = transform acc
       \<and> d' = fold max (map (source_digits log_digits) lsCMs) d"
proof (induction lsCMs arbitrary: acc d)
  case Nil
  then show ?case by simp
next
  case (Cons cm lsCMs)
  from Cons.prems obtain t dc acc' where
    t: "transform cm = Some t" and dc: "log_digits (fst (scale t)) = Inr dc"
    and one: "merge_one acc (fst (decompress cm)) = (acc', None)"
    and rest: "merge_sources log_digits lsCMs acc' (if dc > d then dc else d) = Returned s d'"
    by (auto split: option.splits sum.splits prod.splits)
  have "transform acc' = transform acc" using transform_merge_one [of acc "fst (decompress cm)"] one by simp
  moreover have "(if dc > d then dc else d) = max (source_digits log_digits cm) d"
    by (simp add: source_digits_def t dc max_def)
  ultimately show ?case using Cons.IH [OF rest] by simp
qed

lemma transform_remove_duplicate_vertices:
  "remove_duplicate_vertices cm = Returned cm' r \<Longrightarrow> transform cm' = transform cm"
  by (auto simp: remove_duplicate_vertices_def Let_def split: prod.splits option.splits sum.splits)

lemma transform_remove_orphan_vertices:
  "remove_orphan_vertices cm = Returned cm' r \<Longrightarrow> transform cm' = transform cm"
  by (auto simp: remove_orphan_vertices_def Let_def split: prod.splits option.splits sum.splits)

lemma compress_scale:
  "transform cm = None \<Longrightarrow> compress k None cm = Returned cm' b
   \<Longrightarrow> \<exists>t. transform cm' = Some t
         \<and> scale t = (PyFloat (fl (1 / fl (10 ^ k))), PyFloat (fl (1 / fl (10 ^ k))), PyFloat (fl (1 / fl (10 ^ k))))"
  by (auto simp: compress_def Let_def split: outcome.splits
      dest!: transform_remove_duplicate_vertices transform_remove_orphan_vertices)

lemma transform_decompress: "transform (fst (decompress cm)) = None"
  by (simp add: decompress_def split: option.splits)

lemma merge_sources_splice:
  "merge_sources log_digits lsCMs acc d = Returned s d'
   \<Longrightarrow> splice_all acc (map (\<lambda>cm. fst (decompress cm)) lsCMs) = (s, None)
       \<and> (\<forall>cm \<in> set lsCMs. transform cm \<noteq> None)"
proof (induction lsCMs arbitrary: acc d)
  case Nil
  then show ?case by simp
next
  case (Cons cm lsCMs)
  from Cons.prems obtain t dc acc' where
    t: "transform cm = Some t" and dc: "log_digits (fst (scale t)) = Inr dc"
    and one: "merge_one acc (fst (decompress cm)) = (acc', None)"
    and rest: "merge_sources log_digits lsCMs acc' (if dc > d then dc else d) = Returned s d'"
    by (auto split: option.splits sum.splits prod.splits)
  show ?case using Cons.IH [OF rest] t one by (simp add: then_do_def)
qed

lemma decompress_quantized:
  "transform cm = Some t
   \<Longrightarrow> decompress cm = (cm\<lparr>vertices := map (dequantize_vertex t) (vertices cm), transform := None\<rparr>, True)"
  by (simp add: decompress_def)

text \<open>
  Claim C4, as amended. When \<open>merge\<close> returns, the target and every source had a
  transform and \<open>decompress\<close> replaced their vertices by the dequantized ones, whatever
  their precisions; what the loop splices together are these dequantized datasets, the
  target first and the sources in their order; the result, after the removal of
  duplicates and orphans, is quantized again by \<open>compress\<close> with \<open>D\<close> digits, where
  \<open>D\<close> is the largest number of digits among the target and the sources; and the
  transform that \<open>merge\<close> leaves has the scale \<open>1.0 / math.pow(10, D)\<close> on the three
  axes: the finest of the precisions, not the coarsest.
\<close>

theorem merge_requantizes_finest:
  assumes "merge log_digits self lsCMs = Returned s b"
  shows "(\<forall>cm \<in> set (self # lsCMs). \<exists>t. transform cm = Some t
            \<and> decompress cm = (cm\<lparr>vertices := map (dequantize_vertex t) (vertices cm), transform := None\<rparr>, True))
     \<and> (\<exists>s0 s1 r1 s2 r2 b'.
           splice_all (fst (decompress self)) (map (\<lambda>cm. fst (decompress cm)) lsCMs) = (s0, None)
           \<and> remove_duplicate_vertices s0 = Returned s1 r1
           \<and> remove_orphan_vertices s1 = Returned s2 r2
           \<and> compress (nat (Max (set (map (source_digits log_digits) (self # lsCMs))))) None s2 = Returned s b')
     \<and> (\<exists>t ss. transform s = Some t \<and> scale t = (ss, ss, ss)
           \<and> ss = PyFloat (fl (1 / fl (10 ^ nat (Max (set (map (source_digits log_digits) (self # lsCMs))))))))"
proof -
  from assms obtain t0 d0 s0 d s1 r1 s2 r2 b' where
    t0: "transform self = Some t0" and d0: "log_digits (fst (scale t0)) = Inr d0"
    and src: "merge_sources log_digits lsCMs (fst (decompress self)) d0 = Returned s0 d"
    and dd: "remove_duplicate_vertices s0 = Returned s1 r1"
    and ro: "remove_orphan_vertices s1 = Returned s2 r2"
    and co: "compress (nat d) None s2 = Returned s b'"
    by (auto simp: merge_def split: option.splits sum.splits outcome.splits)
  have "transform s0 = None" and d: "d = fold max (map (source_digits log_digits) lsCMs) d0"
    using merge_sources_Returned [OF src] by (simp_all add: transform_decompress)
  then have "transform s2 = None"
    using transform_remove_duplicate_vertices [OF dd] transform_remove_orphan_vertices [OF ro] by simp
  from compress_scale [OF this co] obtain t where
    t: "transform s = Some t"
       "scale t = (PyFloat (fl (1 / fl (10 ^ nat d))), PyFloat (fl (1 / fl (10 ^ nat d))), PyFloat (fl (1 / fl (10 ^ nat d))))"
    by blast
  have "d0 = source_digits log_digits self" by (simp add: source_digits_def t0 d0)
  then have "d = Max (set (source_digits log_digits self # map (source_digits log_digits) lsCMs))"
    using d by (simp only: Max.set_eq_fold)
  then have D: "d = Max (set (map (source_digits log_digits) (self # lsCMs)))"
    by simp
  have sp: "splice_all (fst (decompress self)) (map (\<lambda>cm. fst (decompress cm)) lsCMs) = (s0, None)"
    and q: "\<forall>cm \<in> set lsCMs. transform cm \<noteq> None"
    using merge_sources_splice [OF src] by simp_all
  have first: "\<forall>cm \<in> set (self # lsCMs). \<exists>t. transform cm = Some t
            \<and> decompress cm = (cm\<lparr>vertices := map (dequantize_vertex t) (vertices cm), transform := None\<rparr>, True)"
    using q t0 by (auto simp: decompress_quantized)
  have second: "\<exists>s0 s1 r1 s2 r2 b'.
           splice_all (fst (decompress self)) (map (\<lambda>cm. fst (decompress cm)) lsCMs) = (s0, None)
           \<and> remove_duplicate_vertices s0 = Returned s1 r1
           \<and> remove_orphan_vertices s1 = Returned s2 r2
           \<and> compress (nat (Max (set (map (source_digits log_digits) (self # lsCMs))))) None s2 = Returned s b'"
    using sp dd ro co D by blast
  have third: "\<exists>t ss. transform s = Some t \<and> scale t = (ss, ss, ss)
           \<and> ss = PyFloat (fl (1 / fl (10 ^ nat (Max (set (map (source_digits log_digits) (self # lsCMs)))))))"
    using t D by simp
  show ?thesis using first second third by blast
qed

lemma digits_A: "source_digits log_digits_table merge_A = 3"
  by code_simp

lemma digits_B: "source_digits log_digits_table merge_B = 2"
  by code_simp

lemma merge_B_floats_plain:
  "merge_templates merge_B_floats s = (s, None)"
  "merge_materials merge_B_floats s = (s, None)"
  "merge_textures merge_B_floats s = (s, None)"
  by (simp_all add: merge_templates_def merge_materials_def merge_textures_def merge_B_floats_def)

lemma splice_all_AB: "splice_all merge_A_floats [merge_B_floats] = (spliced_AB, None)"
  by (simp add: then_do_def merge_one_def splice_AB merge_B_floats_plain)

theorem merge_requantizes_finest_witness:
  "merge log_digits_table merge_A [merge_B] = Returned merged_AB True
   \<and> decompress merge_A = (merge_A_floats, True)
   \<and> decompress merge_B = (merge_B_floats, True)
   \<and> splice_all merge_A_floats [merge_B_floats] = (spliced_AB, None)
   \<and> (\<exists>s1 r1 s2 r2 b'.
         remove_duplicate_vertices spliced_AB = Returned s1 r1
         \<and> remove_orphan_vertices s1 = Returned s2 r2
         \<and> compress 3 None s2 = Returned merged_AB b')
   \<and> (\<exists>t ss. transform merged_AB = Some t \<and> scale t = (ss, ss, ss)
         \<and> ss = PyFloat (fl (1 / fl (10 ^ 3))))"
proof -
  note th = merge_requantizes_finest [OF merge_AB_run]
  have D: "nat (Max (set (map (source_digits log_digits_table) (merge_A # [merge_B])))) = 3"
    by (simp add: digits_A digits_B)
  from th [THEN conjunct2, THEN conjunct1] obtain s0 s1 r1 s2 r2 b' where
    sp: "splice_all (fst (decompress merge_A)) (map (\<lambda>cm. fst (decompress cm)) [merge_B]) = (s0, None)"
    and dd: "remove_duplicate_vertices s0 = Returned s1 r1"
    and ro: "remove_orphan_vertices s1 = Returned s2 r2"
    and co: "compress (nat (Max (set (map (source_digits log_digits_table) (merge_A # [merge_B]))))) None s2
               = Returned merged_AB b'"
    by blast
  have "splice_all merge_A_floats [merge_B_floats] = (s0, None)"
    using sp by (simp only: decompress_merge_A decompress_merge_B fst_conv list.map)
  then have s0: "s0 = spliced_AB" by (simp only: splice_all_AB prod.inject)
  have passes: "\<exists>s1 r1 s2 r2 b'.
         remove_duplicate_vertices spliced_AB = Returned s1 r1
         \<and> remove_orphan_vertices s1 = Returned s2 r2
         \<and> compress 3 None s2 = Returned merged_AB b'"
    using dd ro co unfolding s0 D by blast
  have sc: "\<exists>t ss. transform merged_AB = Some t \<and> scale t = (ss, ss, ss)
         \<and> ss = PyFloat (fl (1 / fl (10 ^ 3)))"
    using th [THEN conjunct2, THEN conjunct2] unfolding D .
  show ?thesis
    by (intro conjI) (rule merge_AB_run decompress_merge_A decompress_merge_B splice_all_AB passes sc)+
qed

text \<open>
  The claim as stated fails on A and B: A has three digits and B two, the coarser
  precision is two digits, and the merged dataset has the scale of three.
\<close>

theorem merge_coarser_counterexample:
  "source_digits log_digits_table merge_A = 3
   \<and> source_digits log_digits_table merge_B = 2
   \<and> merge log_digits_table merge_A [merge_B] = Returned merged_AB True
   \<and> map_option scale (transform merged_AB)
       = Some (PyFloat (fl (1 / fl (10 ^ 3))), PyFloat (fl (1 / fl (10 ^ 3))), PyFloat (fl (1 / fl (10 ^ 3))))
   \<and> map_option scale (transform merged_AB)
       \<noteq> Some (PyFloat (fl (1 / fl (10 ^ 2))), PyFloat (fl (1 / fl (10 ^ 2))), PyFloat (fl (1 / fl (10 ^ 2))))"
proof -
  have finer: "map_option scale (transform merged_AB)
       = Some (PyFloat (fl (1 / fl (10 ^ 3))), PyFloat (fl (1 / fl (10 ^ 3))), PyFloat (fl (1 / fl (10 ^ 3))))"
    by code_simp
  have coarser: "map_option scale (transform merged_AB)
       \<noteq> Some (PyFloat (fl (1 / fl (10 ^ 2))), PyFloat (fl (1 / fl (10 ^ 2))), PyFloat (fl (1 / fl (10 ^ 2))))"
    by code_simp
  show ?thesis
    by (intro conjI) (rule digits_A digits_B merge_AB_run finer coarser)+
qed

text \<open>
  Claim C10. \<open>merge\<close> on a target without transform raises \<open>KeyError\<close> and leaves the
  target as it was; a source without transform makes it raise \<open>KeyError\<close> when its turn
  comes, with the target as the sources before it left it, and after the first source
  that is the target dequantized and nothing else.
\<close>

theorem merge_needs_transform:
  "(transform self = None \<longrightarrow> merge log_digits self lsCMs = Raised KeyError self)
   \<and> (transform cm = None \<longrightarrow>
        merge_sources log_digits (pre @ cm # rest) acc d
          = (case merge_sources log_digits pre acc d of
               Raised e s \<Rightarrow> Raised e s
             | Returned s d' \<Rightarrow> Raised KeyError s))
   \<and> (transform target = Some t \<and> log_digits (fst (scale t)) = Inr d0 \<and> transform src = None \<longrightarrow>
        merge log_digits target (src # others) = Raised KeyError (fst (decompress target)))"
  by (auto simp: merge_def merge_sources_unquantized)

theorem merge_needs_transform_witness:
  "transform orphan_example = None
   \<and> merge log_digits_table orphan_example [merge_B] = Raised KeyError orphan_example
   \<and> merge_sources log_digits_table ([merge_B] @ orphan_example # []) merge_A_floats 3
       = Raised KeyError spliced_AB
   \<and> merge log_digits_table merge_A (orphan_example # [merge_B]) = Raised KeyError merge_A_floats"
proof -
  note inst = merge_needs_transform
      [where self = orphan_example and log_digits = log_digits_table and lsCMs = "[merge_B]"
         and cm = orphan_example and pre = "[merge_B]" and rest = "[]" and acc = merge_A_floats
         and d = 3 and target = merge_A and src = orphan_example and others = "[merge_B]"
         and d0 = 3 and t = millimetres]
  have none: "transform orphan_example = None" by (simp add: orphan_example_def)
  have dA: "log_digits_table (fst (scale millimetres)) = Inr 3" by code_simp
  have pre: "merge_sources log_digits_table [merge_B] merge_A_floats 3 = Returned spliced_AB 3"
    by code_simp
  have hyp: "transform merge_A = Some millimetres \<and> log_digits_table (fst (scale millimetres)) = Inr 3
               \<and> transform orphan_example = None"
    using dA none by (simp add: merge_A_def)
  have c2: "merge log_digits_table orphan_example [merge_B] = Raised KeyError orphan_example"
    using inst [THEN conjunct1] none by (rule mp)
  have "merge_sources log_digits_table ([merge_B] @ orphan_example # []) merge_A_floats 3
          = (case merge_sources log_digits_table [merge_B] merge_A_floats 3 of
               Raised e s \<Rightarrow> Raised e s
             | Returned s d' \<Rightarrow> Raised KeyError s)"
    using inst [THEN conjunct2, THEN conjunct1] none by (rule mp)
  then have c3: "merge_sources log_digits_table ([merge_B] @ orphan_example # []) merge_A_floats 3
          = Raised KeyError spliced_AB"
    by (simp only: pre outcome.case)
  have "merge log_digits_table merge_A (orphan_example # [merge_B])
          = Raised KeyError (fst (decompress merge_A))"
    using inst [THEN conjunct2, THEN conjunct2] hyp by (rule mp)
  then have c4: "merge log_digits_table merge_A (orphan_example # [merge_B]) = Raised KeyError merge_A_floats"
    by (simp only: decompress_merge_A fst_conv)
  show ?thesis
    by (intro conjI) (rule none c2 c3 c4)+
qed

section \<open>Merge: the two-phase rule of texture leaves\<close>







































end
